theory Spec2Isabelle
  imports Main "HOL-Library.FSet"
begin

section \<open>Python built-ins and \<open>os.path\<close> functions used by app.py\<close>

text \<open>
  The orchestration code of app.py calls a handful of functions of Python's standard
  library whose behaviour is fixed by CPython (POSIX flavour of \<open>os.path\<close>). They
  are written out here so that the functions of app.py can be evaluated on concrete
  inputs. Numbers handed to app.py are Python ints (the data model of the specification:
  a reference frame index is an integer); floats are outside this development.
\<close>

subsection \<open>\<open>str\<close> on integers\<close>

definition digit_char :: "nat \<Rightarrow> char" where
  "digit_char d = ''0123456789'' ! d"

text \<open>\<open>str(n)\<close> for \<open>n \<ge> 0\<close>: the decimal digits, most significant first, no leading zero.\<close>

fun str_nat :: "nat \<Rightarrow> string" where
  "str_nat n = (if n < 10 then [digit_char n] else str_nat (n div 10) @ [digit_char (n mod 10)])"

declare str_nat.simps [simp del]

text \<open>\<open>str(i)\<close> for any Python int: a minus sign in front of the digits of a negative one.\<close>

definition str_int :: "int \<Rightarrow> string" where
  "str_int i = (if i < 0 then CHR ''-'' # str_nat (nat (- i)) else str_nat (nat i))"

text \<open>\<open>sep.join(xs)\<close>.\<close>

fun join :: "string \<Rightarrow> string list \<Rightarrow> string" where
  "join sep [] = []"
| "join sep [x] = x"
| "join sep (x # y # ys) = x @ sep @ join sep (y # ys)"

subsection \<open>\<open>os.path\<close> (posixpath)\<close>

text \<open>\<open>s.rfind(c)\<close>: the highest index at which \<open>c\<close> occurs in \<open>s\<close>, or \<open>-1\<close>.\<close>

fun rfind :: "char \<Rightarrow> string \<Rightarrow> int" where
  "rfind c [] = - 1"
| "rfind c (x # xs) =
     (let r = rfind c xs in if 0 \<le> r then r + 1 else if x = c then 0 else - 1)"

text \<open>
  \<open>os.path.splitext\<close> is \<open>genericpath._splitext(p, '/', None, '.')\<close>:
  \<^verbatim>\<open>
    sepIndex = p.rfind(sep)
    dotIndex = p.rfind(extsep)
    if dotIndex > sepIndex:
        # skip all leading dots
        filenameIndex = sepIndex + 1
        while filenameIndex < dotIndex:
            if p[filenameIndex:filenameIndex+1] != extsep:
                return p[:dotIndex], p[dotIndex:]
            filenameIndex += 1
    return p, p[:0]
  \<close>
\<close>

function splitext_loop :: "string \<Rightarrow> nat \<Rightarrow> nat \<Rightarrow> string \<times> string" where
  "splitext_loop p filenameIndex dotIndex =
     (if filenameIndex < dotIndex then
        (if take 1 (drop filenameIndex p) \<noteq> ''.'' then (take dotIndex p, drop dotIndex p)
         else splitext_loop p (filenameIndex + 1) dotIndex)
      else (p, []))"
  by pat_completeness auto
termination
  by (relation "measure (\<lambda>(p, filenameIndex, dotIndex). dotIndex - filenameIndex)") auto

declare splitext_loop.simps [simp del]

definition splitext :: "string \<Rightarrow> string \<times> string" where
  "splitext p =
     (let sepIndex = rfind CHR ''/'' p;
          dotIndex = rfind CHR ''.'' p
      in if dotIndex > sepIndex then splitext_loop p (nat (sepIndex + 1)) (nat dotIndex)
         else (p, []))"

text \<open>\<open>os.path.basename(p)\<close>: \<^verbatim>\<open>i = p.rfind('/') + 1; return p[i:]\<close>.\<close>

definition basename :: "string \<Rightarrow> string" where
  "basename p = drop (nat (rfind CHR ''/'' p + 1)) p"

text \<open>
  \<open>os.path.join(a, b)\<close> with one component \<open>b\<close>:
  \<^verbatim>\<open>
    if b.startswith('/'):                 path = b
    elif not path or path.endswith('/'):  path += b
    else:                                 path += '/' + b
  \<close>
\<close>

definition os_path_join :: "string \<Rightarrow> string \<Rightarrow> string" where
  "os_path_join a b =
     (if take 1 b = ''/'' then b
      else if a = [] \<or> last a = CHR ''/'' then a @ b
      else a @ ''/'' @ b)"

section \<open>The world app.py runs in\<close>

text \<open>
  What app.py can observe and change outside its own variables: the set of paths that
  exist on disk (all that \<open>os.path.exists\<close> reads of it; a directory holds finitely
  many), and, in the order they happen, the lines it prints and the calls it makes to
  its collaborators. A call event records the arguments of the call and, where the
  caller uses it, the value the call returned.
\<close>

datatype 'img event =
    Print string
  | SubprocessRun "string list"
  | CalculateCropRadiusStatistics string
  | DeleteExistingReferenceFrames
  | ExtractAndCropFrame "string option" int bool string
  | Imread string 'img
  | OverlayText 'img int bool 'img
  | Imwrite string 'img

record 'img world =
  files :: "string fset"
  trace :: "'img event list"

definition os_path_exists :: "string \<Rightarrow> 'img world \<Rightarrow> bool \<times> 'img world" where
  "os_path_exists p w = (p |\<in>| files w, w)"

definition print :: "string \<Rightarrow> 'img world \<Rightarrow> 'img world" where
  "print line w = w\<lparr>trace := trace w @ [Print line]\<rparr>"

section \<open>app.py: \<open>get_versioned_filename\<close>\<close>

text \<open>The f-string \<^verbatim>\<open>f"{base}({counter}){ext}"\<close> of line 17.\<close>

definition versioned_name :: "string \<Rightarrow> nat \<Rightarrow> string \<Rightarrow> string" where
  "versioned_name base counter ext = base @ ''('' @ str_nat counter @ '')'' @ ext"

text \<open>
  The loop of lines 16 to 18, with the loop variables \<open>counter\<close> and
  \<open>versioned_filepath\<close> as arguments:
  \<^verbatim>\<open>
    while os.path.exists(versioned_filepath):
        versioned_filepath = f"{base}({counter}){ext}"
        counter += 1
    return versioned_filepath
  \<close>
  A directory holds finitely many paths and distinct counters give distinct candidates, so
  the loop ends; the proof follows the definitions (\<open>termination gvf_loop\<close>).
\<close>

function gvf_loop :: "string \<Rightarrow> string \<Rightarrow> nat \<Rightarrow> string \<Rightarrow> 'img world \<Rightarrow> string \<times> 'img world" where
  "gvf_loop base ext counter versioned_filepath w =
     (let (found, w') = os_path_exists versioned_filepath w
      in if found then gvf_loop base ext (counter + 1) (versioned_name base counter ext) w'
         else (versioned_filepath, w'))"
  by pat_completeness auto

definition get_versioned_filename :: "string \<Rightarrow> 'img world \<Rightarrow> string \<times> 'img world" where
  "get_versioned_filename filepath w =
     (let (base, ext) = splitext filepath;
          counter = 1;
          versioned_filepath = filepath
      in gvf_loop base ext counter versioned_filepath w)"

section \<open>Collaborators\<close>

text \<open>
  The inference script started through \<open>subprocess.run\<close>, the crop radius statistics
  module, the reference frame module and OpenCV are not part of app.py. Their behaviour
  is a parameter of what follows: each is a function of its arguments and of the files on
  disk that returns its result (and the files it leaves behind). \<open>subprocess_run\<close> gives
  the exit code of the process; \<open>str_CalledProcessError\<close> and \<open>str_value\<close> are
  Python's \<open>str\<close> on the exception and on a statistic, which app.py only prints.
  \<open>'img\<close> is the type of decoded images, \<open>'v\<close> the type of the statistics.
  Every call is taken to return: a collaborator that raises (an unreadable video, an
  interpreter that cannot be started) ends the calling function of app.py with that
  exception, which none of them catches, and is not followed further here.
\<close>

record ('img, 'v) env =
  subprocess_run :: "string list \<Rightarrow> string fset \<Rightarrow> int \<times> string fset"
  str_CalledProcessError :: "int \<Rightarrow> string list \<Rightarrow> string"
  calculate_crop_radius_statistics :: "string \<Rightarrow> string fset \<Rightarrow> ('v \<times> 'v \<times> 'v \<times> 'v) \<times> string fset"
  str_value :: "'v \<Rightarrow> string"
  delete_existing_reference_frames :: "string fset \<Rightarrow> string fset"
  extract_and_crop_frame :: "string option \<Rightarrow> int \<Rightarrow> bool \<Rightarrow> string fset \<Rightarrow> string \<times> string fset"
  cv2_imread :: "string \<Rightarrow> string fset \<Rightarrow> 'img"
  overlay_text :: "'img \<Rightarrow> int \<Rightarrow> bool \<Rightarrow> 'img"
  cv2_imwrite :: "string \<Rightarrow> 'img \<Rightarrow> string fset \<Rightarrow> string fset"

text \<open>A call to a collaborator: its effect on the files, and the call appended to the trace.\<close>

definition call_subprocess_run ::
  "('img, 'v) env \<Rightarrow> string list \<Rightarrow> 'img world \<Rightarrow> int \<times> 'img world" where
  "call_subprocess_run env cmd w =
     (let (returncode, fs) = subprocess_run env cmd (files w)
      in (returncode, \<lparr>files = fs, trace = trace w @ [SubprocessRun cmd]\<rparr>))"

definition call_calculate_crop_radius_statistics ::
  "('img, 'v) env \<Rightarrow> string \<Rightarrow> 'img world \<Rightarrow> ('v \<times> 'v \<times> 'v \<times> 'v) \<times> 'img world" where
  "call_calculate_crop_radius_statistics env video_path w =
     (let (stats, fs) = calculate_crop_radius_statistics env video_path (files w)
      in (stats, \<lparr>files = fs, trace = trace w @ [CalculateCropRadiusStatistics video_path]\<rparr>))"

definition call_delete_existing_reference_frames ::
  "('img, 'v) env \<Rightarrow> 'img world \<Rightarrow> 'img world" where
  "call_delete_existing_reference_frames env w =
     \<lparr>files = delete_existing_reference_frames env (files w),
      trace = trace w @ [DeleteExistingReferenceFrames]\<rparr>"

definition call_extract_and_crop_frame ::
  "('img, 'v) env \<Rightarrow> string option \<Rightarrow> int \<Rightarrow> bool \<Rightarrow> 'img world \<Rightarrow> string \<times> 'img world" where
  "call_extract_and_crop_frame env video_path frame_index crop_to_face w =
     (let (frame_path, fs) = extract_and_crop_frame env video_path frame_index crop_to_face (files w)
      in (frame_path,
          \<lparr>files = fs,
           trace = trace w @ [ExtractAndCropFrame video_path frame_index crop_to_face frame_path]\<rparr>))"

definition call_cv2_imread ::
  "('img, 'v) env \<Rightarrow> string \<Rightarrow> 'img world \<Rightarrow> 'img \<times> 'img world" where
  "call_cv2_imread env path w =
     (let frame = cv2_imread env path (files w)
      in (frame, w\<lparr>trace := trace w @ [Imread path frame]\<rparr>))"

definition call_overlay_text ::
  "('img, 'v) env \<Rightarrow> 'img \<Rightarrow> int \<Rightarrow> bool \<Rightarrow> 'img world \<Rightarrow> 'img \<times> 'img world" where
  "call_overlay_text env frame index face_detected w =
     (let frame_with_text = overlay_text env frame index face_detected
      in (frame_with_text,
          w\<lparr>trace := trace w @ [OverlayText frame index face_detected frame_with_text]\<rparr>))"

definition call_cv2_imwrite ::
  "('img, 'v) env \<Rightarrow> string \<Rightarrow> 'img \<Rightarrow> 'img world \<Rightarrow> 'img world" where
  "call_cv2_imwrite env path frame w =
     \<lparr>files = cv2_imwrite env path frame (files w),
      trace = trace w @ [Imwrite path frame]\<rparr>"

section \<open>app.py: \<open>compute_crop_radius_stats\<close>\<close>

text \<open>
  The uploaded file handle, of which only \<open>.name\<close> is read. The function returns
  either a message (a \<open>str\<close>) or the statistic.
\<close>

record file_handle =
  name :: string

datatype 'v reply = Message string | MostCommon 'v

definition compute_crop_radius_stats ::
  "('img, 'v) env \<Rightarrow> file_handle option \<Rightarrow> 'img world \<Rightarrow> 'v reply \<times> 'img world" where
  "compute_crop_radius_stats env video_file w =
     (case video_file of
        None \<Rightarrow> (Message ''Please upload a video file first.'', w)
      | Some f \<Rightarrow>
          (let w1 = print ''Computing Crop Radius...'' w;
               ((_, _, _, most_common), w2) = call_calculate_crop_radius_statistics env (name f) w1;
               w3 = print (''Done: Crop radius = '' @ str_value env most_common) w2
           in (MostCommon most_common, w3)))"

section \<open>app.py: \<open>process_files\<close>\<close>

text \<open>
  Lines 30 to 32: the non-empty slots, in slot order, shifted by 5 when the custom crop
  radius is \<open>None\<close> or \<open>0\<close>.
\<close>

definition ref_indices_of :: "int option \<Rightarrow> int option list \<Rightarrow> int list" where
  "ref_indices_of custom_crop_radius slots =
     (let ref_indices = [the index. index \<leftarrow> slots, index \<noteq> None]
      in if custom_crop_radius = None \<or> custom_crop_radius = Some 0
         then [index + 5. index \<leftarrow> ref_indices]
         else ref_indices)"

text \<open>Line 33: \<^verbatim>\<open>','.join(map(str, ref_indices)) if len(ref_indices) == 5 else ""\<close>.\<close>

definition ref_indices_str_of :: "int list \<Rightarrow> string" where
  "ref_indices_str_of ref_indices =
     (if length ref_indices = 5 then join '','' (map str_int ref_indices) else '''')"

text \<open>Lines 39 to 41.\<close>

definition pretrained_model_path :: string where
  "pretrained_model_path = ''./asserts/pretrained_lipsick.pth''"

definition deepspeech_model_path :: string where
  "deepspeech_model_path = ''./asserts/output_graph.pb''"

definition res_video_dir :: string where
  "res_video_dir = ''./asserts/inference_result''"

text \<open>Lines 43 and 44: the name of the output video.\<close>

definition output_video_name_of :: "string \<Rightarrow> bool \<Rightarrow> string" where
  "output_video_name_of source_video auto_mask =
     (let base_name = fst (splitext (basename source_video))
      in if \<not> auto_mask then base_name @ ''_lipsick.mp4'' else ''LipSick_Blend.mp4'')"

text \<open>Lines 48 to 65: the command line of the inference process.\<close>

definition build_cmd ::
  "string \<Rightarrow> string \<Rightarrow> string \<Rightarrow> int option \<Rightarrow> bool \<Rightarrow> bool \<Rightarrow> string list" where
  "build_cmd source_video driving_audio ref_indices_str custom_crop_radius
       activate_custom_frames auto_mask =
     (let cmd = [''python'', ''inference.py'',
                 ''--source_video_path'', source_video,
                 ''--driving_audio_path'', driving_audio,
                 ''--pretrained_lipsick_path'', pretrained_model_path,
                 ''--deepspeech_model_path'', deepspeech_model_path,
                 ''--res_video_dir'', res_video_dir,
                 ''--custom_reference_frames'', ref_indices_str];
          cmd = (case custom_crop_radius of
                   None \<Rightarrow> cmd
                 | Some r \<Rightarrow> cmd @ [''--custom_crop_radius'', str_int r]);
          cmd = (if activate_custom_frames then cmd @ [''--activate_custom_frames''] else cmd);
          cmd = (if auto_mask then cmd @ [''--auto_mask''] else cmd)
      in cmd)"

text \<open>
  An uncaught exception leaves \<open>process_files\<close> instead of a result:
  \<open>os.path.basename(None)\<close> raises \<open>TypeError\<close> when no source video was uploaded.
\<close>

datatype exn = TypeError

text \<open>
  \<open>process_files\<close>. The result is the pair the function returns, wired by the
  interface to the outputs \<open>[status_text, output_video]\<close> in this order. The test
  \<^verbatim>\<open>not driving_audio\<close> holds of \<open>None\<close> and of the empty string. \<open>subprocess.run\<close>
  with \<open>check=True\<close> raises \<open>CalledProcessError\<close> exactly when the exit code is not 0.
\<close>

definition process_files ::
  "('img, 'v) env \<Rightarrow> string option \<Rightarrow> string option \<Rightarrow> int option \<Rightarrow> bool \<Rightarrow>
   int option \<Rightarrow> int option \<Rightarrow> int option \<Rightarrow> int option \<Rightarrow> int option \<Rightarrow> bool \<Rightarrow>
   'img world \<Rightarrow> (exn + string \<times> string) \<times> 'img world" where
  "process_files env source_video driving_audio custom_crop_radius auto_mask
       ref_index_1 ref_index_2 ref_index_3 ref_index_4 ref_index_5 activate_custom_frames w =
     (let ref_indices = ref_indices_of custom_crop_radius
                          [ref_index_1, ref_index_2, ref_index_3, ref_index_4, ref_index_5];
          ref_indices_str = ref_indices_str_of ref_indices;
          no_audio = (Inr ('''', ''Error: Audio file is required.''),
                      print ''Please upload audio first.'' w)
      in case driving_audio of
           None \<Rightarrow> no_audio
         | Some audio \<Rightarrow>
             if audio = '''' then no_audio
             else
               (case source_video of
                  None \<Rightarrow> (Inl TypeError, w)
                | Some source \<Rightarrow>
                    (let output_video_name = output_video_name_of source auto_mask;
                         output_video_path = os_path_join res_video_dir output_video_name;
                         (output_video_path, w1) = get_versioned_filename output_video_path w;
                         cmd = build_cmd source audio ref_indices_str custom_crop_radius
                                 activate_custom_frames auto_mask;
                         (returncode, w2) = call_subprocess_run env cmd w1
                     in if returncode = 0 then
                          (let w3 = print ''Complete'' w2;
                               w4 = print ''Result saved in ./asserts/inference_results'' w3;
                               w5 = print ''Thank you for using LipSick for your Lip-Sync needs.'' w4
                           in (Inr ('''', output_video_path), w5))
                        else
                          (let w3 = print (''An error occurred: ''
                                             @ str_CalledProcessError env returncode cmd) w2
                           in (Inr (''An error occurred during processing. Please check the console log.'',
                                    ''''), w3)))))"

section \<open>app.py: \<open>visualize_reference_frames\<close>\<close>

text \<open>
  The loop of lines 84 to 90 over the five slots, with the list \<open>frames\<close> built so far.
  \<open>int(index)\<close> is the index itself on a Python int.
\<close>

fun visualize_loop ::
  "('img, 'v) env \<Rightarrow> string option \<Rightarrow> int option list \<Rightarrow> string list \<Rightarrow> 'img world \<Rightarrow>
   string list \<times> 'img world" where
  "visualize_loop env video_path [] frames w = (frames, w)"
| "visualize_loop env video_path (None # ref_indices) frames w =
     visualize_loop env video_path ref_indices frames w"
| "visualize_loop env video_path (Some index # ref_indices) frames w =
     (let (frame_path, w1) = call_extract_and_crop_frame env video_path index False w;
          (frame, w2) = call_cv2_imread env frame_path w1;
          (frame_with_text, w3) = call_overlay_text env frame index True w2;
          w4 = call_cv2_imwrite env frame_path frame_with_text w3
      in visualize_loop env video_path ref_indices (frames @ [frame_path]) w4)"

definition visualize_reference_frames ::
  "('img, 'v) env \<Rightarrow> string option \<Rightarrow>
   int option \<Rightarrow> int option \<Rightarrow> int option \<Rightarrow> int option \<Rightarrow> int option \<Rightarrow>
   'img world \<Rightarrow> string list \<times> 'img world" where
  "visualize_reference_frames env video_path
       ref_index_1 ref_index_2 ref_index_3 ref_index_4 ref_index_5 w =
     (let w0 = call_delete_existing_reference_frames env w;
          ref_indices = [ref_index_1, ref_index_2, ref_index_3, ref_index_4, ref_index_5];
          frames = []
      in visualize_loop env video_path ref_indices frames w0)"

text \<open>
  The four calls one pass of the loop makes for a slot that holds \<open>index\<close>, where
  \<open>frame_path\<close> is the path the extraction returned, \<open>frame\<close> the image read from it
  and \<open>frame_with_text\<close> the annotated image.
\<close>

definition frame_events ::
  "string option \<Rightarrow> int \<Rightarrow> string \<Rightarrow> 'img \<Rightarrow> 'img \<Rightarrow> 'img event list" where
  "frame_events video_path index frame_path frame frame_with_text =
     [ExtractAndCropFrame video_path index False frame_path,
      Imread frame_path frame,
      OverlayText frame index True frame_with_text,
      Imwrite frame_path frame_with_text]"

text \<open>
  Section 4.6 of the specification, step by step, to be compared with the loop of
  app.py: starting from the files \<open>fs\<close>, for each supplied index in order the frame is
  extracted without face cropping, the extracted file is read, the image is annotated
  with the index (face detected set) and the annotated image is written over the
  extracted file. The result lists, per index, the path, the image read and the image
  written, and gives the files left at the end.
\<close>

fun reference_frame_steps ::
  "('img, 'v) env \<Rightarrow> string option \<Rightarrow> int list \<Rightarrow> string fset \<Rightarrow>
   (int \<times> string \<times> 'img \<times> 'img) list \<times> string fset" where
  "reference_frame_steps env video_path [] fs = ([], fs)"
| "reference_frame_steps env video_path (index # indices) fs =
     (let (frame_path, fs1) = extract_and_crop_frame env video_path index False fs;
          frame = cv2_imread env frame_path fs1;
          frame_with_text = overlay_text env frame index True;
          fs2 = cv2_imwrite env frame_path frame_with_text fs1;
          (steps, fs3) = reference_frame_steps env video_path indices fs2
      in ((index, frame_path, frame, frame_with_text) # steps, fs3))"

section \<open>Example inputs\<close>

text \<open>
  A results directory that already holds two blended outputs, and collaborators whose
  answers are fixed: the inference process exits with the code \<open>rc\<close> and leaves the
  files alone, frame \<open>i\<close> is extracted to \<open>ref_<i>.png\<close>, an image is a number and
  annotating it adds the index. \<open>stale_world\<close> also holds the reference frame
  \<open>ref_9.png\<close> of an earlier visualisation, which the deletion removes.
\<close>

definition demo_files :: "string fset" where
  "demo_files = {|''./asserts/inference_result/LipSick_Blend.mp4'',
                  ''./asserts/inference_result/LipSick_Blend(1).mp4''|}"

definition demo_world :: "int world" where
  "demo_world = \<lparr>files = demo_files, trace = []\<rparr>"

definition stale_world :: "int world" where
  "stale_world = \<lparr>files = finsert ''ref_9.png'' demo_files, trace = []\<rparr>"

definition demo_env :: "int \<Rightarrow> (int, int) env" where
  "demo_env rc =
     \<lparr>subprocess_run = (\<lambda>cmd fs. (rc, fs)),
      str_CalledProcessError = (\<lambda>returncode cmd. ''exit status '' @ str_int returncode),
      calculate_crop_radius_statistics = (\<lambda>video_path fs. ((10, 20, 30, 40), fs)),
      str_value = str_int,
      delete_existing_reference_frames = (\<lambda>fs. fs |-| {|''ref_9.png''|}),
      extract_and_crop_frame =
        (\<lambda>video_path frame_index crop_to_face fs.
           (''ref_'' @ str_int frame_index @ ''.png'',
            finsert (''ref_'' @ str_int frame_index @ ''.png'') fs)),
      cv2_imread = (\<lambda>path fs. 100),
      overlay_text = (\<lambda>frame index face_detected. frame + index),
      cv2_imwrite = (\<lambda>path frame fs. finsert path fs)\<rparr>"

section \<open>Auxiliary facts\<close>

subsection \<open>Termination of the probing loop\<close>

text \<open>
  Distinct counters give distinct candidate names, because \<open>str\<close> is injective. Hence
  only finitely many candidates can exist on disk, which is what makes the probing loop
  of \<open>get_versioned_filename\<close> terminate.
\<close>

lemma digit_char_inj: "a < 10 \<Longrightarrow> b < 10 \<Longrightarrow> digit_char a = digit_char b \<Longrightarrow> a = b"
proof -
  assume a: "a < 10" and b: "b < 10" and e: "digit_char a = digit_char b"
  from a have "a \<in> {0,1,2,3,4,5,6,7,8,9}" by auto
  moreover from b have "b \<in> {0,1,2,3,4,5,6,7,8,9}" by auto
  ultimately show ?thesis using e by (auto simp: digit_char_def)
qed

lemma str_nat_nonempty: "str_nat n \<noteq> []"
  by (subst str_nat.simps) simp

lemma str_nat_inj: "str_nat n = str_nat m \<Longrightarrow> n = m"
proof (induction n arbitrary: m rule: str_nat.induct)
  case (1 n)
  show ?case
  proof (cases "n < 10")
    case True
    note n = this
    show ?thesis
    proof (cases "m < 10")
      case True
      with n "1.prems" show ?thesis
        by (simp add: str_nat.simps[of n] str_nat.simps[of m] digit_char_inj)
    next
      case False
      with n "1.prems" show ?thesis
        using str_nat_nonempty[of "m div 10"]
        by (simp add: str_nat.simps[of n] str_nat.simps[of m])
    qed
  next
    case False
    note n = this
    show ?thesis
    proof (cases "m < 10")
      case True
      with n "1.prems" show ?thesis
        using str_nat_nonempty[of "n div 10"]
        by (simp add: str_nat.simps[of n] str_nat.simps[of m])
    next
      case False
      with n "1.prems" have e: "str_nat (n div 10) = str_nat (m div 10)"
        and d: "digit_char (n mod 10) = digit_char (m mod 10)"
        by (simp_all add: str_nat.simps[of n] str_nat.simps[of m])
      from "1.IH"[OF n e] have q: "n div 10 = m div 10" .
      from d have r: "n mod 10 = m mod 10" by (intro digit_char_inj) simp_all
      from q r show ?thesis by (metis div_mult_mod_eq)
    qed
  qed
qed

lemma versioned_name_inj: "versioned_name base n ext = versioned_name base m ext \<Longrightarrow> n = m"
  by (simp add: versioned_name_def str_nat_inj)

lemma finite_versions: "finite {n. versioned_name base n ext |\<in>| fs}"
proof -
  have "{n. versioned_name base n ext |\<in>| fs} = (\<lambda>n. versioned_name base n ext) -` fset fs"
    by auto
  moreover have "inj (\<lambda>n. versioned_name base n ext)"
    by (rule injI) (rule versioned_name_inj)
  ultimately show ?thesis by (simp add: finite_vimageI)
qed

termination gvf_loop
proof (relation "measure (\<lambda>(base, ext, counter, versioned_filepath, w).
         card {n. counter \<le> n \<and> versioned_name base n ext |\<in>| files w}
         + (if versioned_filepath |\<in>| files w then 1 else 0))", goal_cases)
  case 1
  then show ?case by simp
next
  case (2 base ext counter versioned_filepath w x found w')
  then have w': "w' = w" and ex: "versioned_filepath |\<in>| files w"
    by (simp_all add: os_path_exists_def)
  let ?A = "\<lambda>c. {n. c \<le> n \<and> versioned_name base n ext |\<in>| files w}"
  have fin: "finite (?A c)" for c
    using finite_versions[of base ext "files w"] by (rule rev_finite_subset) auto
  have "card (?A (counter + 1)) + (if versioned_name base counter ext |\<in>| files w then 1 else 0)
        = card (?A counter)"
  proof (cases "versioned_name base counter ext |\<in>| files w")
    case True
    then have "?A counter = insert counter (?A (counter + 1))" by (auto simp: le_Suc_eq)
    moreover have "counter \<notin> ?A (counter + 1)" by simp
    ultimately show ?thesis using True fin[of "counter + 1"] by simp
  next
    case False
    then have "?A counter = ?A (counter + 1)"
      by (auto simp: Suc_le_eq) (metis le_neq_implies_less)
    with False show ?thesis by simp
  qed
  with w' ex show ?case by simp
qed

declare gvf_loop.simps [simp del]

subsection \<open>The probing loop\<close>

lemma gvf_loop_unused: "v |\<notin>| files w \<Longrightarrow> gvf_loop base ext counter v w = (v, w)"
  by (subst gvf_loop.simps) (simp add: os_path_exists_def)

lemma gvf_loop_used:
  "v |\<in>| files w \<Longrightarrow>
   gvf_loop base ext counter v w = gvf_loop base ext (counter + 1) (versioned_name base counter ext) w"
  by (subst gvf_loop.simps) (simp add: os_path_exists_def)

lemma gvf_loop_world: "snd (gvf_loop base ext counter v w) = w"
proof (induction base ext counter v w rule: gvf_loop.induct)
  case (1 base ext counter v w)
  show ?case
  proof (cases "v |\<in>| files w")
    case True
    then have "(True, w) = os_path_exists v w" by (simp add: os_path_exists_def)
    from "1.IH"[OF refl this] have "snd (gvf_loop base ext (counter + 1) (versioned_name base counter ext) w) = w"
      by simp
    with True show ?thesis by (simp add: gvf_loop_used)
  next
    case False
    then show ?thesis by (simp add: gvf_loop_unused)
  qed
qed

lemma gvf_loop_probe:
  "v |\<in>| files w \<Longrightarrow> counter \<le> n \<Longrightarrow> versioned_name base n ext |\<notin>| files w \<Longrightarrow>
   (\<forall>m. counter \<le> m \<and> m < n \<longrightarrow> versioned_name base m ext |\<in>| files w) \<Longrightarrow>
   gvf_loop base ext counter v w = (versioned_name base n ext, w)"
proof (induction "n - counter" arbitrary: counter v)
  case 0
  then have "counter = n" by simp
  with 0 show ?case by (simp add: gvf_loop_used gvf_loop_unused)
next
  case (Suc d)
  then have lt: "counter < n" by simp
  with Suc.prems have here: "versioned_name base counter ext |\<in>| files w" by simp
  have "gvf_loop base ext (counter + 1) (versioned_name base counter ext) w
        = (versioned_name base n ext, w)"
  proof (rule Suc.hyps(1))
    show "d = n - (counter + 1)" using Suc.hyps(2) by simp
    show "versioned_name base counter ext |\<in>| files w" by (rule here)
    show "counter + 1 \<le> n" using lt by simp
    show "versioned_name base n ext |\<notin>| files w" by (rule Suc.prems(3))
    show "\<forall>m. counter + 1 \<le> m \<and> m < n \<longrightarrow> versioned_name base m ext |\<in>| files w"
      using Suc.prems(4) by simp
  qed
  with Suc.prems(1) show ?case by (simp add: gvf_loop_used)
qed

lemma unused_version_exists: "\<exists>n\<ge>c. versioned_name base n ext |\<notin>| fs"
proof (rule ccontr)
  assume "\<not> (\<exists>n\<ge>c. versioned_name base n ext |\<notin>| fs)"
  then have "{n. c \<le> n} \<subseteq> {n. versioned_name base n ext |\<in>| fs}" by auto
  then have "finite {n. c \<le> n}" using finite_versions by (rule finite_subset)
  moreover have "infinite {n. c \<le> n}"
    by (metis finite_nat_set_iff_bounded_le mem_Collect_eq nle_le not_less_eq_eq)
  ultimately show False by simp
qed

lemma first_unused_version:
  "\<exists>n\<ge>c. versioned_name base n ext |\<notin>| fs \<and>
     (\<forall>m. c \<le> m \<and> m < n \<longrightarrow> versioned_name base m ext |\<in>| fs)"
proof -
  let ?P = "\<lambda>n. c \<le> n \<and> versioned_name base n ext |\<notin>| fs"
  from unused_version_exists[of c base ext fs] obtain k where k: "?P k" by blast
  then have "?P (LEAST n. ?P n)" by (rule LeastI)
  moreover have "\<forall>m. c \<le> m \<and> m < (LEAST n. ?P n) \<longrightarrow> versioned_name base m ext |\<in>| fs"
    using not_less_Least by blast
  ultimately show ?thesis by blast
qed

lemma get_versioned_filename_world: "snd (get_versioned_filename filepath w) = w"
  by (simp add: get_versioned_filename_def gvf_loop_world split: prod.splits)

lemma get_versioned_filename_pair:
  "get_versioned_filename filepath w = (fst (get_versioned_filename filepath w), w)"
  by (metis get_versioned_filename_world prod.collapse)

lemma gvf_loop_result_unused: "fst (gvf_loop base ext counter v w) |\<notin>| files w"
proof (cases "v |\<in>| files w")
  case False
  then show ?thesis by (simp add: gvf_loop_unused)
next
  case True
  from first_unused_version[of counter base ext "files w"] obtain n where
    n: "counter \<le> n" "versioned_name base n ext |\<notin>| files w"
       "\<forall>m. counter \<le> m \<and> m < n \<longrightarrow> versioned_name base m ext |\<in>| files w"
    by blast
  from gvf_loop_probe[OF True n] n(2) show ?thesis by simp
qed

lemma get_versioned_filename_unused: "fst (get_versioned_filename filepath w) |\<notin>| files w"
  by (simp add: get_versioned_filename_def gvf_loop_result_unused split: prod.splits)

subsection \<open>The three ways through \<open>process_files\<close>\<close>

lemma process_files_no_audio:
  "driving_audio = None \<or> driving_audio = Some '''' \<Longrightarrow>
   process_files env source_video driving_audio custom_crop_radius auto_mask
     r1 r2 r3 r4 r5 activate_custom_frames w
   = (Inr ('''', ''Error: Audio file is required.''),
      w\<lparr>trace := trace w @ [Print ''Please upload audio first.'']\<rparr>)"
  by (auto simp: process_files_def print_def Let_def)

lemma process_files_no_video:
  "audio \<noteq> '''' \<Longrightarrow>
   process_files env None (Some audio) custom_crop_radius auto_mask
     r1 r2 r3 r4 r5 activate_custom_frames w
   = (Inl TypeError, w)"
  by (simp add: process_files_def Let_def)

lemma process_files_run:
  assumes "audio \<noteq> ''''"
  shows "process_files env (Some source) (Some audio) custom_crop_radius auto_mask
           r1 r2 r3 r4 r5 activate_custom_frames w =
    (let path = fst (get_versioned_filename
                       (os_path_join res_video_dir (output_video_name_of source auto_mask)) w);
         cmd = build_cmd source audio
                 (ref_indices_str_of (ref_indices_of custom_crop_radius [r1, r2, r3, r4, r5]))
                 custom_crop_radius activate_custom_frames auto_mask;
         returncode = fst (subprocess_run env cmd (files w));
         fs = snd (subprocess_run env cmd (files w))
     in if returncode = 0 then
          (Inr ('''', path),
           \<lparr>files = fs,
            trace = trace w @ [SubprocessRun cmd, Print ''Complete'',
                               Print ''Result saved in ./asserts/inference_results'',
                               Print ''Thank you for using LipSick for your Lip-Sync needs.'']\<rparr>)
        else
          (Inr (''An error occurred during processing. Please check the console log.'', ''''),
           \<lparr>files = fs,
            trace = trace w @ [SubprocessRun cmd,
                               Print (''An error occurred: ''
                                        @ str_CalledProcessError env returncode cmd)]\<rparr>))"
proof -
  define path where "path = fst (get_versioned_filename
                       (os_path_join res_video_dir (output_video_name_of source auto_mask)) w)"
  define cmd where "cmd = build_cmd source audio
                 (ref_indices_str_of (ref_indices_of custom_crop_radius [r1, r2, r3, r4, r5]))
                 custom_crop_radius activate_custom_frames auto_mask"
  obtain returncode fs where run: "subprocess_run env cmd (files w) = (returncode, fs)"
    by (cases "subprocess_run env cmd (files w)")
  have gv: "get_versioned_filename
              (os_path_join res_video_dir (output_video_name_of source auto_mask)) w = (path, w)"
    unfolding path_def by (rule get_versioned_filename_pair)
  have call: "call_subprocess_run env cmd w
                = (returncode, \<lparr>files = fs, trace = trace w @ [SubprocessRun cmd]\<rparr>)"
    by (simp add: call_subprocess_run_def run)
  have "process_files env (Some source) (Some audio) custom_crop_radius auto_mask
           r1 r2 r3 r4 r5 activate_custom_frames w =
     (if returncode = 0 then
          (Inr ('''', path),
           \<lparr>files = fs,
            trace = trace w @ [SubprocessRun cmd, Print ''Complete'',
                               Print ''Result saved in ./asserts/inference_results'',
                               Print ''Thank you for using LipSick for your Lip-Sync needs.'']\<rparr>)
        else
          (Inr (''An error occurred during processing. Please check the console log.'', ''''),
           \<lparr>files = fs,
            trace = trace w @ [SubprocessRun cmd,
                               Print (''An error occurred: ''
                                        @ str_CalledProcessError env returncode cmd)]\<rparr>))"
    using assms unfolding process_files_def Let_def
    by (simp add: gv cmd_def[symmetric] call print_def)
  then show ?thesis
    unfolding Let_def path_def[symmetric] cmd_def[symmetric] by (simp add: run)
qed

lemma process_files_run_trace:
  assumes "audio \<noteq> ''''"
  shows "\<exists>evs. trace (snd (process_files env (Some source) (Some audio) custom_crop_radius auto_mask
                            r1 r2 r3 r4 r5 activate_custom_frames w))
           = trace w @ SubprocessRun
               (build_cmd source audio
                  (ref_indices_str_of (ref_indices_of custom_crop_radius [r1, r2, r3, r4, r5]))
                  custom_crop_radius activate_custom_frames auto_mask) # evs"
  unfolding process_files_run[OF assms] Let_def by simp

subsection \<open>Reference indices and the command line\<close>

lemma ref_indices_of_map:
  "ref_indices_of custom_crop_radius slots
   = map (\<lambda>index. if custom_crop_radius = None \<or> custom_crop_radius = Some 0
                    then index + 5 else index)
         (map the (filter (\<lambda>s. s \<noteq> None) slots))"
proof -
  have collect: "[the index. index \<leftarrow> slots, index \<noteq> None]
                 = map the (filter (\<lambda>s. s \<noteq> None) slots)"
    by (induction slots) simp_all
  show ?thesis
    unfolding ref_indices_of_def Let_def collect by (cases custom_crop_radius) auto
qed

lemma length_ref_indices_of:
  "length (ref_indices_of custom_crop_radius slots) = length (filter (\<lambda>s. s \<noteq> None) slots)"
  by (simp add: ref_indices_of_map)

lemma five_ref_indices:
  "length (ref_indices_of custom_crop_radius [r1, r2, r3, r4, r5]) = 5
   \<longleftrightarrow> r1 \<noteq> None \<and> r2 \<noteq> None \<and> r3 \<noteq> None \<and> r4 \<noteq> None \<and> r5 \<noteq> None"
  unfolding length_ref_indices_of by simp

lemma str_int_nonempty: "str_int i \<noteq> []"
  by (simp add: str_int_def str_nat_nonempty)

lemma join_nonempty: "x \<noteq> [] \<Longrightarrow> join sep (x # xs) \<noteq> []"
  by (cases xs) simp_all

lemma ref_indices_str_of_empty_iff:
  "ref_indices_str_of ref_indices = '''' \<longleftrightarrow> length ref_indices \<noteq> 5"
proof (cases "length ref_indices = 5")
  case False
  then show ?thesis by (simp add: ref_indices_str_of_def)
next
  case True
  then obtain x xs where "ref_indices = x # xs" by (cases ref_indices) auto
  with True show ?thesis
    by (simp add: ref_indices_str_of_def join_nonempty str_int_nonempty)
qed

lemma take_build_cmd:
  "take 14 (build_cmd source_video driving_audio ref_indices_str custom_crop_radius
              activate_custom_frames auto_mask)
   = [''python'', ''inference.py'',
      ''--source_video_path'', source_video,
      ''--driving_audio_path'', driving_audio,
      ''--pretrained_lipsick_path'', ''./asserts/pretrained_lipsick.pth'',
      ''--deepspeech_model_path'', ''./asserts/output_graph.pb'',
      ''--res_video_dir'', ''./asserts/inference_result'',
      ''--custom_reference_frames'', ref_indices_str]"
  by (simp add: build_cmd_def Let_def pretrained_model_path_def deepspeech_model_path_def
        res_video_dir_def split: option.splits)

lemma drop_build_cmd:
  "drop 14 (build_cmd source_video driving_audio ref_indices_str custom_crop_radius
              activate_custom_frames auto_mask)
   = (case custom_crop_radius of None \<Rightarrow> [] | Some r \<Rightarrow> [''--custom_crop_radius'', str_int r])
     @ (if activate_custom_frames then [''--activate_custom_frames''] else [])
     @ (if auto_mask then [''--auto_mask''] else [])"
  by (simp add: build_cmd_def Let_def split: option.splits)

lemma reference_frames_arg:
  "take 2 (drop 12 (build_cmd source_video driving_audio ref_indices_str custom_crop_radius
              activate_custom_frames auto_mask))
   = [''--custom_reference_frames'', ref_indices_str]"
proof -
  have "take 2 (drop 12 c) = drop 12 (take 14 c)" for c :: "string list"
    by (simp add: drop_take)
  then show ?thesis by (simp add: take_build_cmd)
qed

subsection \<open>The output path\<close>

text \<open>
  The name of the output video never starts with a slash (\<open>os.path.basename\<close>
  leaves no slash and \<open>os.path.splitext\<close> returns a prefix), so \<open>os.path.join\<close>
  puts it inside the results directory.
\<close>

lemma rfind_ge: "- 1 \<le> rfind c s"
  by (induction s) (auto simp: Let_def)

lemma rfind_absent: "rfind c s < 0 \<Longrightarrow> c \<notin> set s"
  by (induction s) (auto simp: Let_def split: if_splits)

lemma basename_no_sep: "CHR ''/'' \<notin> set (basename p)"
  unfolding basename_def
proof (induction p)
  case Nil
  then show ?case by simp
next
  case (Cons x xs)
  show ?case
  proof (cases "0 \<le> rfind CHR ''/'' xs")
    case True
    then have "nat (rfind CHR ''/'' (x # xs) + 1) = Suc (nat (rfind CHR ''/'' xs + 1))"
      by (simp add: Let_def nat_add_distrib)
    with Cons show ?thesis by simp
  next
    case False
    then have "CHR ''/'' \<notin> set xs" by (simp add: rfind_absent)
    with False show ?thesis by (simp add: Let_def)
  qed
qed

lemma splitext_loop_prefix: "\<exists>k. fst (splitext_loop p filenameIndex dotIndex) = take k p"
proof (induction p filenameIndex dotIndex rule: splitext_loop.induct)
  case (1 p filenameIndex dotIndex)
  show ?case
  proof (cases "filenameIndex < dotIndex")
    case False
    then have "fst (splitext_loop p filenameIndex dotIndex) = take (length p) p"
      by (simp add: splitext_loop.simps[of p filenameIndex dotIndex])
    then show ?thesis by blast
  next
    case True
    show ?thesis
    proof (cases "take 1 (drop filenameIndex p) \<noteq> ''.''")
      case True
      with \<open>filenameIndex < dotIndex\<close>
      have "fst (splitext_loop p filenameIndex dotIndex) = take dotIndex p"
        by (simp add: splitext_loop.simps[of p filenameIndex dotIndex])
      then show ?thesis by blast
    next
      case False
      with \<open>filenameIndex < dotIndex\<close> "1.IH"
      show ?thesis by (simp add: splitext_loop.simps[of p filenameIndex dotIndex])
    qed
  qed
qed

lemma splitext_prefix: "\<exists>k. fst (splitext p) = take k p"
proof (cases "rfind CHR ''.'' p > rfind CHR ''/'' p")
  case True
  then show ?thesis by (simp add: splitext_def Let_def splitext_loop_prefix)
next
  case False
  then have "fst (splitext p) = take (length p) p" by (simp add: splitext_def Let_def)
  then show ?thesis by blast
qed

lemma output_video_name_relative: "take 1 (output_video_name_of source auto_mask) \<noteq> ''/''"
proof (cases auto_mask)
  case True
  then show ?thesis by (simp add: output_video_name_of_def)
next
  case False
  obtain k where k: "fst (splitext (basename source)) = take k (basename source)"
    using splitext_prefix by blast
  show ?thesis
  proof (cases "take k (basename source)")
    case Nil
    with False k show ?thesis by (simp add: output_video_name_of_def)
  next
    case (Cons c cs)
    then have "c \<in> set (take k (basename source))" by simp
    then have "c \<in> set (basename source)" by (rule in_set_takeD)
    with basename_no_sep have "c \<noteq> CHR ''/''" by metis
    with False k Cons show ?thesis by (simp add: output_video_name_of_def)
  qed
qed

lemma output_video_path_in_results:
  "os_path_join res_video_dir (output_video_name_of source auto_mask)
   = ''./asserts/inference_result/'' @ output_video_name_of source auto_mask"
  using output_video_name_relative[of source auto_mask]
  by (simp add: os_path_join_def res_video_dir_def)

subsection \<open>The visualisation loop\<close>

lemma reference_frame_steps_indices:
  "map (\<lambda>(index, frame_path, frame, frame_with_text). index)
       (fst (reference_frame_steps env video_path indices fs)) = indices"
proof (induction indices arbitrary: fs)
  case Nil
  show ?case by simp
next
  case (Cons index indices)
  obtain p fs1 where ex: "extract_and_crop_frame env video_path index False fs = (p, fs1)"
    by (cases "extract_and_crop_frame env video_path index False fs")
  obtain steps fs3 where rest:
    "reference_frame_steps env video_path indices
       (cv2_imwrite env p (overlay_text env (cv2_imread env p fs1) index True) fs1) = (steps, fs3)"
    by (cases "reference_frame_steps env video_path indices
       (cv2_imwrite env p (overlay_text env (cv2_imread env p fs1) index True) fs1)")
  from Cons[of "cv2_imwrite env p (overlay_text env (cv2_imread env p fs1) index True) fs1"]
  show ?case by (simp add: ex rest Let_def)
qed

lemma visualize_loop_steps:
  "visualize_loop env video_path slots frames w
   = (frames @ map (\<lambda>(index, frame_path, frame, frame_with_text). frame_path)
                 (fst (reference_frame_steps env video_path
                         [the i. i \<leftarrow> slots, i \<noteq> None] (files w))),
      \<lparr>files = snd (reference_frame_steps env video_path
                       [the i. i \<leftarrow> slots, i \<noteq> None] (files w)),
       trace = trace w @
         concat (map (\<lambda>(index, frame_path, frame, frame_with_text).
                        frame_events video_path index frame_path frame frame_with_text)
                     (fst (reference_frame_steps env video_path
                             [the i. i \<leftarrow> slots, i \<noteq> None] (files w))))\<rparr>)"
proof (induction slots arbitrary: frames w)
  case Nil
  show ?case by simp
next
  case (Cons s slots)
  show ?case
  proof (cases s)
    case None
    from Cons[of frames w] show ?thesis unfolding None by simp
  next
    case (Some index)
    obtain p fs1 where ex: "extract_and_crop_frame env video_path index False (files w) = (p, fs1)"
      by (cases "extract_and_crop_frame env video_path index False (files w)")
    define r where "r = cv2_imread env p fs1"
    define t where "t = overlay_text env r index True"
    define fs2 where "fs2 = cv2_imwrite env p t fs1"
    define w4 :: "'a world" where
      "w4 = \<lparr>files = fs2, trace = trace w @ frame_events video_path index p r t\<rparr>"
    define idxs where "idxs = [the i. i \<leftarrow> slots, i \<noteq> None]"
    have collect: "[the i. i \<leftarrow> Some index # slots, i \<noteq> None] = index # idxs"
      by (simp add: idxs_def)
    obtain steps fs3 where rest: "reference_frame_steps env video_path idxs fs2 = (steps, fs3)"
      by (cases "reference_frame_steps env video_path idxs fs2")
    have step: "visualize_loop env video_path (Some index # slots) frames w
                = visualize_loop env video_path slots (frames @ [p]) w4"
      by (simp add: call_extract_and_crop_frame_def call_cv2_imread_def call_overlay_text_def
            call_cv2_imwrite_def ex Let_def r_def t_def fs2_def w4_def frame_events_def)
    have spec: "reference_frame_steps env video_path (index # idxs) (files w)
                = ((index, p, r, t) # steps, fs3)"
      unfolding reference_frame_steps.simps ex Let_def prod.case
        r_def[symmetric] t_def[symmetric] fs2_def[symmetric] rest ..
    have f4: "files w4 = fs2" and t4: "trace w4 = trace w @ frame_events video_path index p r t"
      by (simp_all add: w4_def)
    have "visualize_loop env video_path slots (frames @ [p]) w4
          = ((frames @ [p]) @ map (\<lambda>(index, frame_path, frame, frame_with_text). frame_path) steps,
             \<lparr>files = fs3,
              trace = trace w4 @
                concat (map (\<lambda>(index, frame_path, frame, frame_with_text).
                               frame_events video_path index frame_path frame frame_with_text)
                            steps)\<rparr>)"
      unfolding Cons[of "frames @ [p]" w4] idxs_def[symmetric] f4 rest by simp
    then show ?thesis
      unfolding Some step collect spec t4 by (simp add: case_prod_unfold)
  qed
qed

section \<open>The claims\<close>

text \<open>
  C1. When the driving audio is absent (\<open>None\<close> or the empty string), line 37 returns
  the pair \<open>("", "Error: Audio file is required.")\<close>: the first component, which the
  interface wires to the status text, is empty, and the message stands in the second
  component, wired to the output video. The files are untouched and the trace grows by the
  printed line only, so \<open>subprocess.run\<close> is not reached.
\<close>

theorem process_files_without_audio:
  "driving_audio = None \<or> driving_audio = Some '''' \<Longrightarrow>
   fst (process_files env source_video driving_audio custom_crop_radius auto_mask
          r1 r2 r3 r4 r5 activate_custom_frames w)
     = Inr ('''', ''Error: Audio file is required.'') \<and>
   files (snd (process_files env source_video driving_audio custom_crop_radius auto_mask
                 r1 r2 r3 r4 r5 activate_custom_frames w)) = files w \<and>
   trace (snd (process_files env source_video driving_audio custom_crop_radius auto_mask
                 r1 r2 r3 r4 r5 activate_custom_frames w))
     = trace w @ [Print ''Please upload audio first.'']"
  by (simp add: process_files_no_audio)

theorem process_files_without_audio_witness:
  "fst (process_files (demo_env 0) (Some ''clip.mp4'') None None True
          None None None None None False demo_world)
     = Inr ('''', ''Error: Audio file is required.'') \<and>
   files (snd (process_files (demo_env 0) (Some ''clip.mp4'') None None True
                 None None None None None False demo_world)) = files demo_world \<and>
   trace (snd (process_files (demo_env 0) (Some ''clip.mp4'') None None True
                 None None None None None False demo_world))
     = trace demo_world @ [Print ''Please upload audio first.'']"
  using process_files_without_audio[of None "demo_env 0" "Some ''clip.mp4''" None True
          None None None None None False demo_world]
  by simp

text \<open>
  C2. The reference indices are the non-empty slots in slot order, each incremented by 5
  when the custom crop radius is \<open>None\<close> or \<open>0\<close> and left as it is otherwise. With five
  indices and driving audio and source video present, the string that follows
  \<open>--custom_reference_frames\<close> on the command line is the comma-separated list of the
  indices so shifted: \<open>6,7,8,9,10\<close> for \<open>[1,2,3,4,5]\<close> without a custom crop radius,
  \<open>1,2,3,4,5\<close> with the custom crop radius 50.
\<close>

theorem process_files_offset_policy:
  "ref_indices_of custom_crop_radius slots
     = map (\<lambda>index. if custom_crop_radius = None \<or> custom_crop_radius = Some 0
                      then index + 5 else index)
           [the index. index \<leftarrow> slots, index \<noteq> None] \<and>
   (audio \<noteq> '''' \<longrightarrow>
      (\<exists>cmd evs.
         trace (snd (process_files env (Some source) (Some audio) custom_crop_radius auto_mask
                       (Some i1) (Some i2) (Some i3) (Some i4) (Some i5)
                       activate_custom_frames w))
           = trace w @ SubprocessRun cmd # evs \<and>
         take 2 (drop 12 cmd)
           = [''--custom_reference_frames'',
              join '',''
                (map (\<lambda>index. str_int (if custom_crop_radius = None \<or> custom_crop_radius = Some 0
                                         then index + 5 else index))
                     [i1, i2, i3, i4, i5])])) \<and>
   (audio \<noteq> '''' \<longrightarrow>
      (\<exists>cmd evs.
         trace (snd (process_files env (Some source) (Some audio) None auto_mask
                       (Some 1) (Some 2) (Some 3) (Some 4) (Some 5) activate_custom_frames w))
           = trace w @ SubprocessRun cmd # evs \<and>
         take 2 (drop 12 cmd) = [''--custom_reference_frames'', ''6,7,8,9,10''])) \<and>
   (audio \<noteq> '''' \<longrightarrow>
      (\<exists>cmd evs.
         trace (snd (process_files env (Some source) (Some audio) (Some 50) auto_mask
                       (Some 1) (Some 2) (Some 3) (Some 4) (Some 5) activate_custom_frames w))
           = trace w @ SubprocessRun cmd # evs \<and>
         take 2 (drop 12 cmd) = [''--custom_reference_frames'', ''1,2,3,4,5'']))"
proof -
  have collect: "[the index. index \<leftarrow> slots, index \<noteq> None]
                 = map the (filter (\<lambda>s. s \<noteq> None) slots)"
    by (induction slots) simp_all
  have a: "ref_indices_of custom_crop_radius slots
     = map (\<lambda>index. if custom_crop_radius = None \<or> custom_crop_radius = Some 0
                      then index + 5 else index)
           [the index. index \<leftarrow> slots, index \<noteq> None]"
    unfolding collect by (rule ref_indices_of_map)
  have run: "\<exists>cmd evs.
         trace (snd (process_files env (Some source) (Some audio) ccr auto_mask
                       r1 r2 r3 r4 r5 activate_custom_frames w))
           = trace w @ SubprocessRun cmd # evs \<and>
         take 2 (drop 12 cmd)
           = [''--custom_reference_frames'', ref_indices_str_of (ref_indices_of ccr [r1, r2, r3, r4, r5])]"
    if "audio \<noteq> ''''" for ccr r1 r2 r3 r4 r5
    using process_files_run_trace[OF that, of env source ccr auto_mask r1 r2 r3 r4 r5
            activate_custom_frames w]
          reference_frames_arg
    by blast
  have s: "ref_indices_str_of (ref_indices_of ccr [Some i1, Some i2, Some i3, Some i4, Some i5])
           = join '','' (map (\<lambda>index. str_int (if ccr = None \<or> ccr = Some 0
                                                then index + 5 else index))
                            [i1, i2, i3, i4, i5])" for ccr
    by (simp add: ref_indices_of_map ref_indices_str_of_def)
  have e1: "ref_indices_str_of (ref_indices_of None [Some 1, Some 2, Some 3, Some 4, Some 5])
            = ''6,7,8,9,10''"
    by code_simp
  have e2: "ref_indices_str_of (ref_indices_of (Some 50) [Some 1, Some 2, Some 3, Some 4, Some 5])
            = ''1,2,3,4,5''"
    by code_simp
  have b: "audio \<noteq> '''' \<longrightarrow>
      (\<exists>cmd evs.
         trace (snd (process_files env (Some source) (Some audio) custom_crop_radius auto_mask
                       (Some i1) (Some i2) (Some i3) (Some i4) (Some i5)
                       activate_custom_frames w))
           = trace w @ SubprocessRun cmd # evs \<and>
         take 2 (drop 12 cmd)
           = [''--custom_reference_frames'',
              join '',''
                (map (\<lambda>index. str_int (if custom_crop_radius = None \<or> custom_crop_radius = Some 0
                                         then index + 5 else index))
                     [i1, i2, i3, i4, i5])])"
    using run[of custom_crop_radius "Some i1" "Some i2" "Some i3" "Some i4" "Some i5"]
    unfolding s by blast
  have c: "audio \<noteq> '''' \<longrightarrow>
      (\<exists>cmd evs.
         trace (snd (process_files env (Some source) (Some audio) None auto_mask
                       (Some 1) (Some 2) (Some 3) (Some 4) (Some 5) activate_custom_frames w))
           = trace w @ SubprocessRun cmd # evs \<and>
         take 2 (drop 12 cmd) = [''--custom_reference_frames'', ''6,7,8,9,10''])"
    using run[of None "Some 1" "Some 2" "Some 3" "Some 4" "Some 5"]
    unfolding e1 by blast
  have d: "audio \<noteq> '''' \<longrightarrow>
      (\<exists>cmd evs.
         trace (snd (process_files env (Some source) (Some audio) (Some 50) auto_mask
                       (Some 1) (Some 2) (Some 3) (Some 4) (Some 5) activate_custom_frames w))
           = trace w @ SubprocessRun cmd # evs \<and>
         take 2 (drop 12 cmd) = [''--custom_reference_frames'', ''1,2,3,4,5''])"
    using run[of "Some 50" "Some 1" "Some 2" "Some 3" "Some 4" "Some 5"]
    unfolding e2 by blast
  from a b c d show ?thesis by (intro conjI)
qed

theorem process_files_offset_policy_witness:
  "''speech.wav'' \<noteq> '''' \<and>
   ref_indices_of (Some 0) [Some 3, None, Some 7, None, None] = [8, 12] \<and>
   (\<exists>cmd evs.
      trace (snd (process_files (demo_env 0) (Some ''clip.mp4'') (Some ''speech.wav'') None True
                    (Some 1) (Some 2) (Some 3) (Some 4) (Some 5) False demo_world))
        = trace demo_world @ SubprocessRun cmd # evs \<and>
      take 2 (drop 12 cmd) = [''--custom_reference_frames'', ''6,7,8,9,10'']) \<and>
   (\<exists>cmd evs.
      trace (snd (process_files (demo_env 0) (Some ''clip.mp4'') (Some ''speech.wav'') (Some 50) True
                    (Some 1) (Some 2) (Some 3) (Some 4) (Some 5) False demo_world))
        = trace demo_world @ SubprocessRun cmd # evs \<and>
      take 2 (drop 12 cmd) = [''--custom_reference_frames'', ''1,2,3,4,5''])"
proof -
  have audio: "''speech.wav'' \<noteq> ''''" by simp
  note inst = process_files_offset_policy[of "Some 0" "[Some 3, None, Some 7, None, None]"
                 "''speech.wav''" "demo_env 0" "''clip.mp4''" True 1 2 3 4 5 False demo_world]
  from inst have "ref_indices_of (Some 0) [Some 3, None, Some 7, None, None]
     = map (\<lambda>index. if Some (0::int) = None \<or> Some (0::int) = Some 0
                      then index + 5 else index)
           [the index. index \<leftarrow> [Some 3, None, Some 7, None, None], index \<noteq> None]"
    by blast
  then have a: "ref_indices_of (Some 0) [Some 3, None, Some 7, None, None] = [8, 12]"
    by simp
  from inst audio have b: "\<exists>cmd evs.
      trace (snd (process_files (demo_env 0) (Some ''clip.mp4'') (Some ''speech.wav'') None True
                    (Some 1) (Some 2) (Some 3) (Some 4) (Some 5) False demo_world))
        = trace demo_world @ SubprocessRun cmd # evs \<and>
      take 2 (drop 12 cmd) = [''--custom_reference_frames'', ''6,7,8,9,10'']"
    by blast
  from inst audio have c: "\<exists>cmd evs.
      trace (snd (process_files (demo_env 0) (Some ''clip.mp4'') (Some ''speech.wav'') (Some 50) True
                    (Some 1) (Some 2) (Some 3) (Some 4) (Some 5) False demo_world))
        = trace demo_world @ SubprocessRun cmd # evs \<and>
      take 2 (drop 12 cmd) = [''--custom_reference_frames'', ''1,2,3,4,5'']"
    by blast
  from audio a b c show ?thesis by (intro conjI)
qed

text \<open>
  C3. With the custom crop radius \<open>0\<close> the five indices are passed incremented by 5 and
  the command line still carries the pair \<open>--custom_crop_radius 0\<close>. Zero is the only
  value at which both happen: the offset is applied to an index and the flag follows the
  reference frames argument exactly when the custom crop radius is \<open>0\<close>.
\<close>

theorem process_files_zero_crop_radius:
  "ref_indices_of (Some 0) slots = map (\<lambda>index. index + 5) [the i. i \<leftarrow> slots, i \<noteq> None] \<and>
   (audio \<noteq> '''' \<longrightarrow>
      (\<exists>cmd evs.
         trace (snd (process_files env (Some source) (Some audio) (Some 0) auto_mask
                       r1 r2 r3 r4 r5 activate_custom_frames w))
           = trace w @ SubprocessRun cmd # evs \<and>
         take 4 (drop 12 cmd)
           = [''--custom_reference_frames'',
              ref_indices_str_of
                (map (\<lambda>index. index + 5) [the i. i \<leftarrow> [r1, r2, r3, r4, r5], i \<noteq> None]),
              ''--custom_crop_radius'', ''0''])) \<and>
   (ref_indices_of custom_crop_radius [Some index] = [index + 5] \<and>
    take 1 (drop 14 (build_cmd source audio ref_indices_str custom_crop_radius
                       activate_custom_frames auto_mask)) = [''--custom_crop_radius'']
    \<longleftrightarrow> custom_crop_radius = Some 0)"
proof -
  have collect: "[the i. i \<leftarrow> xs, i \<noteq> None] = map the (filter (\<lambda>s. s \<noteq> None) xs)"
    for xs :: "int option list"
    by (induction xs) simp_all
  have off: "ref_indices_of (Some 0) xs = map (\<lambda>index. index + 5) [the i. i \<leftarrow> xs, i \<noteq> None]"
    for xs
    unfolding collect by (simp add: ref_indices_of_map)
  let ?s = "ref_indices_str_of (ref_indices_of (Some 0) [r1, r2, r3, r4, r5])"
  let ?c = "build_cmd source audio ?s (Some 0) activate_custom_frames auto_mask"
  have zero: "str_int 0 = ''0''" by code_simp
  have "take 4 (drop 12 ?c) = take 2 (drop 12 (take 14 ?c)) @ take 2 (drop 14 ?c)"
    by (simp add: build_cmd_def Let_def)
  then have cmd: "take 4 (drop 12 ?c)
           = [''--custom_reference_frames'', ?s, ''--custom_crop_radius'', ''0'']"
    unfolding take_build_cmd drop_build_cmd by (simp add: zero)
  have a: "audio \<noteq> '''' \<longrightarrow>
      (\<exists>cmd evs.
         trace (snd (process_files env (Some source) (Some audio) (Some 0) auto_mask
                       r1 r2 r3 r4 r5 activate_custom_frames w))
           = trace w @ SubprocessRun cmd # evs \<and>
         take 4 (drop 12 cmd)
           = [''--custom_reference_frames'',
              ref_indices_str_of
                (map (\<lambda>index. index + 5) [the i. i \<leftarrow> [r1, r2, r3, r4, r5], i \<noteq> None]),
              ''--custom_crop_radius'', ''0''])"
  proof
    assume "audio \<noteq> ''''"
    from process_files_run_trace[OF this, of env source "Some 0" auto_mask
           r1 r2 r3 r4 r5 activate_custom_frames w]
    obtain evs where
      "trace (snd (process_files env (Some source) (Some audio) (Some 0) auto_mask
                       r1 r2 r3 r4 r5 activate_custom_frames w))
           = trace w @ SubprocessRun ?c # evs"
      by blast
    with cmd show "\<exists>cmd evs.
         trace (snd (process_files env (Some source) (Some audio) (Some 0) auto_mask
                       r1 r2 r3 r4 r5 activate_custom_frames w))
           = trace w @ SubprocessRun cmd # evs \<and>
         take 4 (drop 12 cmd)
           = [''--custom_reference_frames'',
              ref_indices_str_of
                (map (\<lambda>index. index + 5) [the i. i \<leftarrow> [r1, r2, r3, r4, r5], i \<noteq> None]),
              ''--custom_crop_radius'', ''0'']"
      unfolding off by blast
  qed
  have b: "ref_indices_of custom_crop_radius [Some index] = [index + 5] \<and>
    take 1 (drop 14 (build_cmd source audio ref_indices_str custom_crop_radius
                       activate_custom_frames auto_mask)) = [''--custom_crop_radius'']
    \<longleftrightarrow> custom_crop_radius = Some 0"
  proof (cases custom_crop_radius)
    case None
    then show ?thesis by (simp add: drop_build_cmd)
  next
    case (Some r)
    then show ?thesis by (simp add: drop_build_cmd ref_indices_of_map)
  qed
  from off[of slots] a b show ?thesis by (intro conjI)
qed

theorem process_files_zero_crop_radius_witness:
  "''speech.wav'' \<noteq> '''' \<and>
   (\<exists>cmd evs.
      trace (snd (process_files (demo_env 0) (Some ''clip.mp4'') (Some ''speech.wav'') (Some 0) True
                    (Some 1) (Some 2) (Some 3) (Some 4) (Some 5) False demo_world))
        = trace demo_world @ SubprocessRun cmd # evs \<and>
      take 4 (drop 12 cmd)
        = [''--custom_reference_frames'', ''6,7,8,9,10'', ''--custom_crop_radius'', ''0''])"
proof -
  have audio: "''speech.wav'' \<noteq> ''''" by simp
  have j: "ref_indices_str_of
             (map (\<lambda>index. index + 5)
                [the i. i \<leftarrow> [Some 1, Some 2, Some 3, Some 4, Some 5], i \<noteq> None])
           = ''6,7,8,9,10''"
    by code_simp
  from process_files_zero_crop_radius[of "[]" "''speech.wav''" "demo_env 0" "''clip.mp4''" True
         "Some 1" "Some 2" "Some 3" "Some 4" "Some 5" False demo_world] audio
  have "\<exists>cmd evs.
      trace (snd (process_files (demo_env 0) (Some ''clip.mp4'') (Some ''speech.wav'') (Some 0) True
                    (Some 1) (Some 2) (Some 3) (Some 4) (Some 5) False demo_world))
        = trace demo_world @ SubprocessRun cmd # evs \<and>
      take 4 (drop 12 cmd)
        = [''--custom_reference_frames'',
           ref_indices_str_of
             (map (\<lambda>index. index + 5)
                [the i. i \<leftarrow> [Some 1, Some 2, Some 3, Some 4, Some 5], i \<noteq> None]),
           ''--custom_crop_radius'', ''0'']"
    by blast
  with audio show ?thesis unfolding j by blast
qed

text \<open>
  C4. The collected indices are the non-empty slots in slot order (shifted or not, by the
  custom crop radius). The string passed downstream is their comma-separated join when
  all five slots are filled and the empty string otherwise; it is non-empty exactly when
  all five are filled. It is the argument that follows \<open>--custom_reference_frames\<close>. The
  slots \<open>[3, None, 7, None, None]\<close> collect to \<open>[3, 7]\<close> and give the empty string.
\<close>

theorem process_files_reference_indices:
  "ref_indices_of custom_crop_radius slots
     = map (\<lambda>index. if custom_crop_radius = None \<or> custom_crop_radius = Some 0
                      then index + 5 else index)
           (map the (filter (\<lambda>slot. slot \<noteq> None) slots)) \<and>
   ref_indices_str_of (ref_indices_of custom_crop_radius [r1, r2, r3, r4, r5])
     = (if r1 \<noteq> None \<and> r2 \<noteq> None \<and> r3 \<noteq> None \<and> r4 \<noteq> None \<and> r5 \<noteq> None
        then join '','' (map str_int (ref_indices_of custom_crop_radius [r1, r2, r3, r4, r5]))
        else '''') \<and>
   (ref_indices_str_of (ref_indices_of custom_crop_radius [r1, r2, r3, r4, r5]) \<noteq> ''''
      \<longleftrightarrow> r1 \<noteq> None \<and> r2 \<noteq> None \<and> r3 \<noteq> None \<and> r4 \<noteq> None \<and> r5 \<noteq> None) \<and>
   (audio \<noteq> '''' \<longrightarrow>
      (\<exists>cmd evs.
         trace (snd (process_files env (Some source) (Some audio) custom_crop_radius auto_mask
                       r1 r2 r3 r4 r5 activate_custom_frames w))
           = trace w @ SubprocessRun cmd # evs \<and>
         take 2 (drop 12 cmd)
           = [''--custom_reference_frames'',
              ref_indices_str_of (ref_indices_of custom_crop_radius [r1, r2, r3, r4, r5])])) \<and>
   ref_indices_of (Some 50) [Some 3, None, Some 7, None, None] = [3, 7] \<and>
   ref_indices_str_of (ref_indices_of custom_crop_radius [Some 3, None, Some 7, None, None]) = ''''"
proof -
  note a = ref_indices_of_map[of custom_crop_radius slots]
  have b: "ref_indices_str_of (ref_indices_of custom_crop_radius [r1, r2, r3, r4, r5])
     = (if r1 \<noteq> None \<and> r2 \<noteq> None \<and> r3 \<noteq> None \<and> r4 \<noteq> None \<and> r5 \<noteq> None
        then join '','' (map str_int (ref_indices_of custom_crop_radius [r1, r2, r3, r4, r5]))
        else '''')"
    unfolding ref_indices_str_of_def five_ref_indices ..
  have c: "ref_indices_str_of (ref_indices_of custom_crop_radius [r1, r2, r3, r4, r5]) \<noteq> ''''
      \<longleftrightarrow> r1 \<noteq> None \<and> r2 \<noteq> None \<and> r3 \<noteq> None \<and> r4 \<noteq> None \<and> r5 \<noteq> None"
    using five_ref_indices[of custom_crop_radius r1 r2 r3 r4 r5]
    unfolding ref_indices_str_of_empty_iff by blast
  have d: "audio \<noteq> '''' \<longrightarrow>
      (\<exists>cmd evs.
         trace (snd (process_files env (Some source) (Some audio) custom_crop_radius auto_mask
                       r1 r2 r3 r4 r5 activate_custom_frames w))
           = trace w @ SubprocessRun cmd # evs \<and>
         take 2 (drop 12 cmd)
           = [''--custom_reference_frames'',
              ref_indices_str_of (ref_indices_of custom_crop_radius [r1, r2, r3, r4, r5])])"
    using process_files_run_trace[of audio env source custom_crop_radius auto_mask r1 r2 r3 r4 r5
            activate_custom_frames w]
          reference_frames_arg
    by blast
  have e: "ref_indices_of (Some 50) [Some 3, None, Some 7, None, None] = [3, 7]"
    by (simp add: ref_indices_of_map)
  have f: "ref_indices_str_of (ref_indices_of custom_crop_radius [Some 3, None, Some 7, None, None])
           = ''''"
    unfolding ref_indices_str_of_empty_iff length_ref_indices_of by simp
  from a b c d e f show ?thesis by (intro conjI)
qed

theorem process_files_reference_indices_witness:
  "''speech.wav'' \<noteq> '''' \<and>
   ref_indices_of None [Some 3, None, Some 7, None, None] = [8, 12] \<and>
   (\<exists>cmd evs.
      trace (snd (process_files (demo_env 0) (Some ''clip.mp4'') (Some ''speech.wav'') None True
                    (Some 3) None (Some 7) None None False demo_world))
        = trace demo_world @ SubprocessRun cmd # evs \<and>
      take 2 (drop 12 cmd) = [''--custom_reference_frames'', ''''])"
proof -
  have audio: "''speech.wav'' \<noteq> ''''" by simp
  note inst = process_files_reference_indices[of None "[Some 3, None, Some 7, None, None]"
                "Some 3" None "Some 7" None None "''speech.wav''" "demo_env 0" "''clip.mp4''"
                True False demo_world]
  from inst have "ref_indices_of None [Some 3, None, Some 7, None, None]
     = map (\<lambda>index. if (None :: int option) = None \<or> (None :: int option) = Some 0
                      then index + 5 else index)
           (map the (filter (\<lambda>slot. slot \<noteq> None) [Some 3, None, Some 7, None, None]))"
    by blast
  then have a: "ref_indices_of None [Some 3, None, Some 7, None, None] = [8, 12]"
    by simp
  from inst have e: "ref_indices_str_of (ref_indices_of None [Some 3, None, Some 7, None, None]) = ''''"
    by blast
  from inst audio have "\<exists>cmd evs.
      trace (snd (process_files (demo_env 0) (Some ''clip.mp4'') (Some ''speech.wav'') None True
                    (Some 3) None (Some 7) None None False demo_world))
        = trace demo_world @ SubprocessRun cmd # evs \<and>
      take 2 (drop 12 cmd)
        = [''--custom_reference_frames'',
           ref_indices_str_of (ref_indices_of None [Some 3, None, Some 7, None, None])]"
    by blast
  then have b: "\<exists>cmd evs.
      trace (snd (process_files (demo_env 0) (Some ''clip.mp4'') (Some ''speech.wav'') None True
                    (Some 3) None (Some 7) None None False demo_world))
        = trace demo_world @ SubprocessRun cmd # evs \<and>
      take 2 (drop 12 cmd) = [''--custom_reference_frames'', '''']"
    unfolding e .
  from audio a b show ?thesis by (intro conjI)
qed

text \<open>
  C5. \<open>get_versioned_filename\<close> always returns. With \<open>(base, ext)\<close> the
  \<open>os.path.splitext\<close> of the candidate: when no file exists at the candidate it is
  returned unchanged; when one does, the result is \<open>base(n)ext\<close> for the smallest
  \<open>n \<ge> 1\<close> at which no file exists (every smaller positive \<open>n\<close> names an existing
  file); the returned path depends on the directory's contents only, so a call repeated
  in an unchanged directory, and in particular in the world the first call leaves,
  returns the same path.
\<close>

theorem get_versioned_filename_next_free:
  "splitext filepath = (base, ext) \<Longrightarrow>
   (filepath |\<notin>| files (w :: 'img world) \<longrightarrow> fst (get_versioned_filename filepath w) = filepath) \<and>
   (filepath |\<in>| files w \<longrightarrow>
      (\<exists>n\<ge>1. fst (get_versioned_filename filepath w) = versioned_name base n ext \<and>
         versioned_name base n ext |\<notin>| files w \<and>
         (\<forall>m. 1 \<le> m \<and> m < n \<longrightarrow> versioned_name base m ext |\<in>| files w))) \<and>
   (\<forall>w' :: 'img world. files w' = files w \<longrightarrow>
      fst (get_versioned_filename filepath w') = fst (get_versioned_filename filepath w)) \<and>
   get_versioned_filename filepath (snd (get_versioned_filename filepath w))
     = get_versioned_filename filepath w"
proof -
  assume sp: "splitext filepath = (base, ext)"
  have unfold: "get_versioned_filename filepath u = gvf_loop base ext 1 filepath u" for u :: "'img world"
    using sp by (simp add: get_versioned_filename_def)
  have a: "filepath |\<notin>| files w \<longrightarrow> fst (get_versioned_filename filepath w) = filepath"
    by (simp add: unfold gvf_loop_unused)
  have b: "\<exists>n\<ge>1. fst (get_versioned_filename filepath u) = versioned_name base n ext \<and>
         versioned_name base n ext |\<notin>| files u \<and>
         (\<forall>m. 1 \<le> m \<and> m < n \<longrightarrow> versioned_name base m ext |\<in>| files u) \<and>
         get_versioned_filename filepath u = (versioned_name base n ext, u)"
    if ex: "filepath |\<in>| files u" for u :: "'img world"
  proof -
    from first_unused_version[of 1 base ext "files u"] obtain n where
      n: "1 \<le> n" "versioned_name base n ext |\<notin>| files u"
         "\<forall>m. 1 \<le> m \<and> m < n \<longrightarrow> versioned_name base m ext |\<in>| files u"
      by blast
    from gvf_loop_probe[OF ex n] have "gvf_loop base ext 1 filepath u = (versioned_name base n ext, u)" .
    with n show ?thesis unfolding unfold by (intro exI[of _ n]) simp
  qed
  have c: "fst (get_versioned_filename filepath w') = fst (get_versioned_filename filepath w)"
    if eq: "files w' = files w" for w' :: "'img world"
  proof (cases "filepath |\<in>| files w")
    case False
    with eq show ?thesis by (simp add: unfold gvf_loop_unused)
  next
    case True
    from b[OF True] obtain n where
      n: "1 \<le> n" "versioned_name base n ext |\<notin>| files w"
         "\<forall>m. 1 \<le> m \<and> m < n \<longrightarrow> versioned_name base m ext |\<in>| files w"
      and r: "get_versioned_filename filepath w = (versioned_name base n ext, w)"
      by blast
    from True eq have ex': "filepath |\<in>| files w'" by simp
    from n eq have n': "1 \<le> n" "versioned_name base n ext |\<notin>| files w'"
         "\<forall>m. 1 \<le> m \<and> m < n \<longrightarrow> versioned_name base m ext |\<in>| files w'"
      by simp_all
    from gvf_loop_probe[OF ex' n'] r show ?thesis by (simp add: unfold)
  qed
  have d: "snd (get_versioned_filename filepath w) = w"
    by (simp add: unfold gvf_loop_world)
  have b': "filepath |\<in>| files w \<longrightarrow>
      (\<exists>n\<ge>1. fst (get_versioned_filename filepath w) = versioned_name base n ext \<and>
         versioned_name base n ext |\<notin>| files w \<and>
         (\<forall>m. 1 \<le> m \<and> m < n \<longrightarrow> versioned_name base m ext |\<in>| files w))"
    using b[of w] by blast
  have d': "get_versioned_filename filepath (snd (get_versioned_filename filepath w))
     = get_versioned_filename filepath w"
    by (simp only: d)
  from c have c': "\<forall>w' :: 'img world. files w' = files w \<longrightarrow>
      fst (get_versioned_filename filepath w') = fst (get_versioned_filename filepath w)"
    by blast
  from a b' c' d' show ?thesis by (intro conjI)
qed

theorem get_versioned_filename_next_free_witness:
  "splitext ''./asserts/inference_result/LipSick_Blend.mp4''
     = (''./asserts/inference_result/LipSick_Blend'', ''.mp4'') \<and>
   ''./asserts/inference_result/LipSick_Blend.mp4'' |\<in>| files demo_world \<and>
   (\<exists>n\<ge>1. fst (get_versioned_filename ''./asserts/inference_result/LipSick_Blend.mp4'' demo_world)
            = versioned_name ''./asserts/inference_result/LipSick_Blend'' n ''.mp4'' \<and>
          versioned_name ''./asserts/inference_result/LipSick_Blend'' n ''.mp4'' |\<notin>| files demo_world \<and>
          (\<forall>m. 1 \<le> m \<and> m < n \<longrightarrow>
             versioned_name ''./asserts/inference_result/LipSick_Blend'' m ''.mp4'' |\<in>| files demo_world)) \<and>
   fst (get_versioned_filename ''./asserts/inference_result/LipSick_Blend.mp4'' demo_world)
     = ''./asserts/inference_result/LipSick_Blend(2).mp4''"
proof -
  have sp: "splitext ''./asserts/inference_result/LipSick_Blend.mp4''
     = (''./asserts/inference_result/LipSick_Blend'', ''.mp4'')"
    by code_simp
  have ex: "''./asserts/inference_result/LipSick_Blend.mp4'' |\<in>| files demo_world"
    by (simp add: demo_world_def demo_files_def)
  have val: "fst (get_versioned_filename ''./asserts/inference_result/LipSick_Blend.mp4'' demo_world)
     = ''./asserts/inference_result/LipSick_Blend(2).mp4''"
    by code_simp
  from get_versioned_filename_next_free[OF sp, of demo_world] ex sp val
  show ?thesis by blast
qed

text \<open>
  C6, amended: for every call with driving audio and a source video present, the name of
  the output video is \<open>LipSick_Blend.mp4\<close> when auto-mask is on and the source's base
  name without its extension followed by \<open>_lipsick.mp4\<close> when it is off
  (\<open>clip_lipsick.mp4\<close> for \<open>clip.mp4\<close>); joined to the results directory it is
  \<open>./asserts/inference_result/<name>\<close>; the output path is what
  \<open>get_versioned_filename\<close> returns for that candidate, no file exists at it, and it is
  the path the call returns when the inference process exits with code 0.
\<close>

theorem process_files_output_path:
  assumes "audio \<noteq> ''''"
  shows "output_video_name_of source True = ''LipSick_Blend.mp4'' \<and>
         output_video_name_of source False = fst (splitext (basename source)) @ ''_lipsick.mp4'' \<and>
         output_video_name_of ''clip.mp4'' False = ''clip_lipsick.mp4'' \<and>
         os_path_join res_video_dir (output_video_name_of source auto_mask)
           = ''./asserts/inference_result/'' @ output_video_name_of source auto_mask \<and>
         (let path = fst (get_versioned_filename
                            (os_path_join res_video_dir (output_video_name_of source auto_mask)) w);
              cmd = build_cmd source audio
                      (ref_indices_str_of (ref_indices_of custom_crop_radius [r1, r2, r3, r4, r5]))
                      custom_crop_radius activate_custom_frames auto_mask
          in path |\<notin>| files w \<and>
             fst (process_files env (Some source) (Some audio) custom_crop_radius auto_mask
                    r1 r2 r3 r4 r5 activate_custom_frames w)
             = (if fst (subprocess_run env cmd (files w)) = 0 then Inr ('''', path)
                else Inr (''An error occurred during processing. Please check the console log.'',
                          '''')))"
proof -
  have a: "output_video_name_of source True = ''LipSick_Blend.mp4''"
    by (simp add: output_video_name_of_def)
  have b: "output_video_name_of source False = fst (splitext (basename source)) @ ''_lipsick.mp4''"
    by (simp add: output_video_name_of_def)
  have c: "output_video_name_of ''clip.mp4'' False = ''clip_lipsick.mp4''"
    by code_simp
  note d = output_video_path_in_results[of source auto_mask]
  have e: "fst (get_versioned_filename
                  (os_path_join res_video_dir (output_video_name_of source auto_mask)) w)
           |\<notin>| files w"
    by (rule get_versioned_filename_unused)
  have f: "fst (process_files env (Some source) (Some audio) custom_crop_radius auto_mask
                    r1 r2 r3 r4 r5 activate_custom_frames w)
             = (if fst (subprocess_run env
                          (build_cmd source audio
                             (ref_indices_str_of (ref_indices_of custom_crop_radius [r1, r2, r3, r4, r5]))
                             custom_crop_radius activate_custom_frames auto_mask) (files w)) = 0
                then Inr ('''', fst (get_versioned_filename
                            (os_path_join res_video_dir (output_video_name_of source auto_mask)) w))
                else Inr (''An error occurred during processing. Please check the console log.'',
                          ''''))"
    unfolding process_files_run[OF assms] Let_def by simp
  from a b c d e f show ?thesis unfolding Let_def by (intro conjI)
qed

theorem process_files_output_path_witness:
  "''speech.wav'' \<noteq> '''' \<and>
   output_video_name_of ''/tmp/clip.mp4'' False = ''clip_lipsick.mp4'' \<and>
   os_path_join res_video_dir (output_video_name_of ''/tmp/clip.mp4'' True)
     = ''./asserts/inference_result/LipSick_Blend.mp4'' \<and>
   ''./asserts/inference_result/LipSick_Blend(2).mp4'' |\<notin>| files demo_world \<and>
   fst (process_files (demo_env 0) (Some ''/tmp/clip.mp4'') (Some ''speech.wav'') None True
          None None None None None False demo_world)
     = Inr ('''', ''./asserts/inference_result/LipSick_Blend(2).mp4'')"
proof -
  have audio: "''speech.wav'' \<noteq> ''''" by simp
  have name: "output_video_name_of ''/tmp/clip.mp4'' True = ''LipSick_Blend.mp4''"
    by code_simp
  have name': "fst (splitext (basename ''/tmp/clip.mp4'')) = ''clip''"
    by code_simp
  have path: "fst (get_versioned_filename ''./asserts/inference_result/LipSick_Blend.mp4'' demo_world)
                = ''./asserts/inference_result/LipSick_Blend(2).mp4''"
    by code_simp
  have rc: "fst (subprocess_run (demo_env 0) c (files demo_world)) = 0" for c
    by (simp add: demo_env_def)
  note inst = process_files_output_path[OF audio, of "''/tmp/clip.mp4''" True demo_world
         None None None None None None False "demo_env 0", unfolded Let_def]
  from inst have n: "output_video_name_of ''/tmp/clip.mp4'' False = ''clip_lipsick.mp4''"
    by (simp add: name')
  from inst have "os_path_join res_video_dir (output_video_name_of ''/tmp/clip.mp4'' True)
           = ''./asserts/inference_result/'' @ output_video_name_of ''/tmp/clip.mp4'' True"
    by blast
  then have j: "os_path_join res_video_dir (output_video_name_of ''/tmp/clip.mp4'' True)
           = ''./asserts/inference_result/LipSick_Blend.mp4''"
    by (simp add: name)
  from inst have "fst (get_versioned_filename
                   (os_path_join res_video_dir (output_video_name_of ''/tmp/clip.mp4'' True))
                   demo_world) |\<notin>| files demo_world"
    by blast
  then have u: "''./asserts/inference_result/LipSick_Blend(2).mp4'' |\<notin>| files demo_world"
    unfolding j path .
  from inst have "fst (process_files (demo_env 0) (Some ''/tmp/clip.mp4'') (Some ''speech.wav'')
                        None True None None None None None False demo_world)
     = (if fst (subprocess_run (demo_env 0)
                  (build_cmd ''/tmp/clip.mp4'' ''speech.wav''
                     (ref_indices_str_of (ref_indices_of None [None, None, None, None, None]))
                     None False True) (files demo_world)) = 0
        then Inr ('''', fst (get_versioned_filename
                   (os_path_join res_video_dir (output_video_name_of ''/tmp/clip.mp4'' True))
                   demo_world))
        else Inr (''An error occurred during processing. Please check the console log.'', ''''))"
    by blast
  then have r: "fst (process_files (demo_env 0) (Some ''/tmp/clip.mp4'') (Some ''speech.wav'')
                        None True None None None None None False demo_world)
     = Inr ('''', ''./asserts/inference_result/LipSick_Blend(2).mp4'')"
    unfolding rc j path by simp
  from audio n j u r show ?thesis by (intro conjI)
qed

text \<open>
  C6 as stated, for every call with driving audio present, fails when no source video
  was uploaded: \<open>os.path.basename(None)\<close> raises \<open>TypeError\<close> before any name is chosen,
  also when auto-mask is on, and the call returns no path.
\<close>

theorem process_files_without_video_counterexample:
  "process_files (demo_env 0) None (Some ''speech.wav'') None True
     None None None None None False demo_world
   = (Inl TypeError, demo_world)"
  by code_simp

text \<open>
  C7. A call reaches the external invocation when it appends a \<open>SubprocessRun cmd\<close>
  event to the trace. Then a source video was given, and the call returns the empty status
  with the versioned output path when the process exits with code 0, and the generic
  failure message with an empty output path when it exits with any other code.
\<close>

theorem process_files_exit_status:
  assumes "trace (snd (process_files env source_video driving_audio custom_crop_radius auto_mask
                         r1 r2 r3 r4 r5 activate_custom_frames w))
             = trace w @ SubprocessRun cmd # evs"
  shows "\<exists>source. source_video = Some source \<and>
           fst (process_files env source_video driving_audio custom_crop_radius auto_mask
                  r1 r2 r3 r4 r5 activate_custom_frames w)
           = (if fst (subprocess_run env cmd (files w)) = 0
              then Inr ('''',
                        fst (get_versioned_filename
                               (os_path_join res_video_dir (output_video_name_of source auto_mask)) w))
              else Inr (''An error occurred during processing. Please check the console log.'', ''''))"
proof (cases "driving_audio = None \<or> driving_audio = Some ''''")
  case True
  have "trace (snd (process_files env source_video driving_audio custom_crop_radius auto_mask
                      r1 r2 r3 r4 r5 activate_custom_frames w))
          = trace w @ [Print ''Please upload audio first.'']"
    by (simp add: process_files_no_audio[OF True])
  with assms show ?thesis by simp
next
  case False
  then obtain audio where audio: "driving_audio = Some audio" "audio \<noteq> ''''" by auto
  show ?thesis
  proof (cases source_video)
    case None
    with audio assms show ?thesis by (simp add: process_files_no_video)
  next
    case (Some source)
    let ?c = "build_cmd source audio
                 (ref_indices_str_of (ref_indices_of custom_crop_radius [r1, r2, r3, r4, r5]))
                 custom_crop_radius activate_custom_frames auto_mask"
    from assms have "cmd = ?c"
      unfolding Some audio(1) process_files_run[OF audio(2)] Let_def
      by (simp split: if_splits)
    then show ?thesis
      unfolding Some audio(1) process_files_run[OF audio(2)] Let_def by simp
  qed
qed

theorem process_files_exit_status_witness:
  "trace (snd (process_files (demo_env 0) (Some ''clip.mp4'') (Some ''speech.wav'') None True
                 None None None None None False demo_world))
     = trace demo_world @
       SubprocessRun [''python'', ''inference.py'', ''--source_video_path'', ''clip.mp4'',
         ''--driving_audio_path'', ''speech.wav'',
         ''--pretrained_lipsick_path'', ''./asserts/pretrained_lipsick.pth'',
         ''--deepspeech_model_path'', ''./asserts/output_graph.pb'',
         ''--res_video_dir'', ''./asserts/inference_result'',
         ''--custom_reference_frames'', '''', ''--auto_mask'']
       # [Print ''Complete'', Print ''Result saved in ./asserts/inference_results'',
          Print ''Thank you for using LipSick for your Lip-Sync needs.''] \<and>
   fst (process_files (demo_env 0) (Some ''clip.mp4'') (Some ''speech.wav'') None True
          None None None None None False demo_world)
     = Inr ('''', ''./asserts/inference_result/LipSick_Blend(2).mp4'') \<and>
   trace (snd (process_files (demo_env 1) (Some ''clip.mp4'') (Some ''speech.wav'') None True
                 None None None None None False demo_world))
     = trace demo_world @
       SubprocessRun [''python'', ''inference.py'', ''--source_video_path'', ''clip.mp4'',
         ''--driving_audio_path'', ''speech.wav'',
         ''--pretrained_lipsick_path'', ''./asserts/pretrained_lipsick.pth'',
         ''--deepspeech_model_path'', ''./asserts/output_graph.pb'',
         ''--res_video_dir'', ''./asserts/inference_result'',
         ''--custom_reference_frames'', '''', ''--auto_mask'']
       # [Print ''An error occurred: exit status 1''] \<and>
   fst (process_files (demo_env 1) (Some ''clip.mp4'') (Some ''speech.wav'') None True
          None None None None None False demo_world)
     = Inr (''An error occurred during processing. Please check the console log.'', '''')"
proof -
  let ?cmd = "[''python'', ''inference.py'', ''--source_video_path'', ''clip.mp4'',
         ''--driving_audio_path'', ''speech.wav'',
         ''--pretrained_lipsick_path'', ''./asserts/pretrained_lipsick.pth'',
         ''--deepspeech_model_path'', ''./asserts/output_graph.pb'',
         ''--res_video_dir'', ''./asserts/inference_result'',
         ''--custom_reference_frames'', '''', ''--auto_mask'']"
  have t0: "trace (snd (process_files (demo_env 0) (Some ''clip.mp4'') (Some ''speech.wav'') None True
                 None None None None None False demo_world))
     = trace demo_world @ SubprocessRun ?cmd
       # [Print ''Complete'', Print ''Result saved in ./asserts/inference_results'',
          Print ''Thank you for using LipSick for your Lip-Sync needs.'']"
    by code_simp
  have t1: "trace (snd (process_files (demo_env 1) (Some ''clip.mp4'') (Some ''speech.wav'') None True
                 None None None None None False demo_world))
     = trace demo_world @ SubprocessRun ?cmd # [Print ''An error occurred: exit status 1'']"
    by code_simp
  have p: "fst (get_versioned_filename
                  (os_path_join res_video_dir (output_video_name_of ''clip.mp4'' True)) demo_world)
           = ''./asserts/inference_result/LipSick_Blend(2).mp4''"
    by code_simp
  have r0: "fst (subprocess_run (demo_env 0) ?cmd (files demo_world)) = 0"
    by (simp add: demo_env_def)
  have r1: "fst (subprocess_run (demo_env 1) ?cmd (files demo_world)) \<noteq> 0"
    by (simp add: demo_env_def)
  from process_files_exit_status[OF t0] r0 p
  have a: "fst (process_files (demo_env 0) (Some ''clip.mp4'') (Some ''speech.wav'') None True
          None None None None None False demo_world)
     = Inr ('''', ''./asserts/inference_result/LipSick_Blend(2).mp4'')"
    by simp
  from process_files_exit_status[OF t1] r1
  have b: "fst (process_files (demo_env 1) (Some ''clip.mp4'') (Some ''speech.wav'') None True
          None None None None None False demo_world)
     = Inr (''An error occurred during processing. Please check the console log.'', '''')"
    by simp
  from t0 a t1 b show ?thesis by (intro conjI)
qed

text \<open>
  C8. \<open>visualize_reference_frames\<close> first deletes the prior reference frames: every
  extraction works on the files the deletion left. Then, for each non-empty slot in slot
  order and on the files the previous slot left, the frame is extracted without face
  cropping, the extracted file is read, the image is annotated with its index (face
  detected set) and the annotated image is written to the very path the frame was
  extracted to; the files after the call are those the last write left. The trace holds
  the deletion followed by these four calls per slot, with the images that were read and
  written. The returned list holds the extracted path of each non-empty slot, in slot
  order, and nothing else: one path per supplied index. For the indices 0 and 2 the
  whole result is written out.
\<close>

theorem visualize_reference_frames_order:
  "(let ref_indices = [the i. i \<leftarrow> [r1, r2, r3, r4, r5], i \<noteq> None];
        (steps, fs) = reference_frame_steps env video_path ref_indices
                        (delete_existing_reference_frames env (files w))
    in visualize_reference_frames env video_path r1 r2 r3 r4 r5 w
         = (map (\<lambda>(index, frame_path, frame, frame_with_text). frame_path) steps,
            \<lparr>files = fs,
             trace = trace w @ DeleteExistingReferenceFrames
                       # concat (map (\<lambda>(index, frame_path, frame, frame_with_text).
                                        frame_events video_path index frame_path frame frame_with_text)
                                     steps)\<rparr>) \<and>
       map (\<lambda>(index, frame_path, frame, frame_with_text). index) steps = ref_indices) \<and>
   (let fs0 = delete_existing_reference_frames env (files w);
        (frame_path_0, fs1) = extract_and_crop_frame env video_path 0 False fs0;
        frame_0 = cv2_imread env frame_path_0 fs1;
        frame_with_text_0 = overlay_text env frame_0 0 True;
        fs2 = cv2_imwrite env frame_path_0 frame_with_text_0 fs1;
        (frame_path_2, fs3) = extract_and_crop_frame env video_path 2 False fs2;
        frame_2 = cv2_imread env frame_path_2 fs3;
        frame_with_text_2 = overlay_text env frame_2 2 True;
        fs4 = cv2_imwrite env frame_path_2 frame_with_text_2 fs3
    in visualize_reference_frames env video_path (Some 0) None (Some 2) None None w
         = ([frame_path_0, frame_path_2],
            \<lparr>files = fs4,
             trace = trace w @ DeleteExistingReferenceFrames
                       # frame_events video_path 0 frame_path_0 frame_0 frame_with_text_0
                       @ frame_events video_path 2 frame_path_2 frame_2 frame_with_text_2\<rparr>))"
proof -
  define w0 where "w0 = call_delete_existing_reference_frames env w"
  have f0: "files w0 = delete_existing_reference_frames env (files w)"
    and t0: "trace w0 = trace w @ [DeleteExistingReferenceFrames]"
    by (simp_all add: w0_def call_delete_existing_reference_frames_def)
  have unfold: "visualize_reference_frames env video_path s1 s2 s3 s4 s5 w
                = visualize_loop env video_path [s1, s2, s3, s4, s5] [] w0" for s1 s2 s3 s4 s5
    by (simp add: visualize_reference_frames_def Let_def w0_def)
  have general: "visualize_reference_frames env video_path s1 s2 s3 s4 s5 w
     = (map (\<lambda>(index, frame_path, frame, frame_with_text). frame_path)
            (fst (reference_frame_steps env video_path
                    [the i. i \<leftarrow> [s1, s2, s3, s4, s5], i \<noteq> None]
                    (delete_existing_reference_frames env (files w)))),
        \<lparr>files = snd (reference_frame_steps env video_path
                         [the i. i \<leftarrow> [s1, s2, s3, s4, s5], i \<noteq> None]
                         (delete_existing_reference_frames env (files w))),
         trace = trace w @ DeleteExistingReferenceFrames
                   # concat (map (\<lambda>(index, frame_path, frame, frame_with_text).
                                    frame_events video_path index frame_path frame frame_with_text)
                                 (fst (reference_frame_steps env video_path
                                         [the i. i \<leftarrow> [s1, s2, s3, s4, s5], i \<noteq> None]
                                         (delete_existing_reference_frames env (files w)))))\<rparr>)"
    for s1 s2 s3 s4 s5
    unfolding unfold visualize_loop_steps[of env video_path "[s1, s2, s3, s4, s5]" "[]" w0] f0 t0
    by simp
  have a: "(let ref_indices = [the i. i \<leftarrow> [r1, r2, r3, r4, r5], i \<noteq> None];
        (steps, fs) = reference_frame_steps env video_path ref_indices
                        (delete_existing_reference_frames env (files w))
    in visualize_reference_frames env video_path r1 r2 r3 r4 r5 w
         = (map (\<lambda>(index, frame_path, frame, frame_with_text). frame_path) steps,
            \<lparr>files = fs,
             trace = trace w @ DeleteExistingReferenceFrames
                       # concat (map (\<lambda>(index, frame_path, frame, frame_with_text).
                                        frame_events video_path index frame_path frame frame_with_text)
                                     steps)\<rparr>) \<and>
       map (\<lambda>(index, frame_path, frame, frame_with_text). index) steps = ref_indices)"
    unfolding Let_def case_prod_beta[of _ "reference_frame_steps env video_path _ _"]
    using general[of r1 r2 r3 r4 r5]
          reference_frame_steps_indices[of env video_path
            "[the i. i \<leftarrow> [r1, r2, r3, r4, r5], i \<noteq> None]"
            "delete_existing_reference_frames env (files w)"]
    by simp
  have c: "[the i. i \<leftarrow> [Some 0, None, Some 2, None, None], i \<noteq> None] = [0 :: int, 2]"
    by simp
  have b: "(let fs0 = delete_existing_reference_frames env (files w);
        (frame_path_0, fs1) = extract_and_crop_frame env video_path 0 False fs0;
        frame_0 = cv2_imread env frame_path_0 fs1;
        frame_with_text_0 = overlay_text env frame_0 0 True;
        fs2 = cv2_imwrite env frame_path_0 frame_with_text_0 fs1;
        (frame_path_2, fs3) = extract_and_crop_frame env video_path 2 False fs2;
        frame_2 = cv2_imread env frame_path_2 fs3;
        frame_with_text_2 = overlay_text env frame_2 2 True;
        fs4 = cv2_imwrite env frame_path_2 frame_with_text_2 fs3
    in visualize_reference_frames env video_path (Some 0) None (Some 2) None None w
         = ([frame_path_0, frame_path_2],
            \<lparr>files = fs4,
             trace = trace w @ DeleteExistingReferenceFrames
                       # frame_events video_path 0 frame_path_0 frame_0 frame_with_text_0
                       @ frame_events video_path 2 frame_path_2 frame_2 frame_with_text_2\<rparr>))"
    unfolding general[of "Some 0" None "Some 2" None None] c
    by (simp add: Let_def split: prod.splits)
  from a b show ?thesis by (intro conjI)
qed

theorem visualize_reference_frames_order_witness:
  "visualize_reference_frames (demo_env 0) (Some ''clip.mp4'')
     (Some 0) None (Some 2) None None stale_world
   = ([''ref_0.png'', ''ref_2.png''],
      \<lparr>files = finsert ''ref_2.png'' (finsert ''ref_0.png'' demo_files),
       trace = [DeleteExistingReferenceFrames,
                ExtractAndCropFrame (Some ''clip.mp4'') 0 False ''ref_0.png'',
                Imread ''ref_0.png'' 100, OverlayText 100 0 True 100, Imwrite ''ref_0.png'' 100,
                ExtractAndCropFrame (Some ''clip.mp4'') 2 False ''ref_2.png'',
                Imread ''ref_2.png'' 100, OverlayText 100 2 True 102, Imwrite ''ref_2.png'' 102]\<rparr>)"
proof -
  have s0: "str_int 0 = ''0''" and s2: "str_int 2 = ''2''" by code_simp+
  from visualize_reference_frames_order[of "Some 0" None "Some 2" None None "demo_env 0"
         "Some ''clip.mp4''" stale_world]
  have "let fs0 = delete_existing_reference_frames (demo_env 0) (files stale_world);
        (frame_path_0, fs1) = extract_and_crop_frame (demo_env 0) (Some ''clip.mp4'') 0 False fs0;
        frame_0 = cv2_imread (demo_env 0) frame_path_0 fs1;
        frame_with_text_0 = overlay_text (demo_env 0) frame_0 0 True;
        fs2 = cv2_imwrite (demo_env 0) frame_path_0 frame_with_text_0 fs1;
        (frame_path_2, fs3) = extract_and_crop_frame (demo_env 0) (Some ''clip.mp4'') 2 False fs2;
        frame_2 = cv2_imread (demo_env 0) frame_path_2 fs3;
        frame_with_text_2 = overlay_text (demo_env 0) frame_2 2 True;
        fs4 = cv2_imwrite (demo_env 0) frame_path_2 frame_with_text_2 fs3
    in visualize_reference_frames (demo_env 0) (Some ''clip.mp4'') (Some 0) None (Some 2) None None
         stale_world
         = ([frame_path_0, frame_path_2],
            \<lparr>files = fs4,
             trace = trace stale_world @ DeleteExistingReferenceFrames
                       # frame_events (Some ''clip.mp4'') 0 frame_path_0 frame_0 frame_with_text_0
                       @ frame_events (Some ''clip.mp4'') 2 frame_path_2 frame_2 frame_with_text_2\<rparr>)"
    by (rule conjunct2)
  then show ?thesis
    by (simp add: Let_def demo_env_def stale_world_def demo_files_def frame_events_def s0 s2)
qed

text \<open>
  C9. Without a file handle \<open>compute_crop_radius_stats\<close> returns the message and leaves
  the world as it is, so the statistics collaborator is not called. With a handle it calls
  the collaborator once, on the handle's name, and returns the fourth component of the
  tuple the collaborator returned.
\<close>

theorem compute_crop_radius_stats_reply:
  "compute_crop_radius_stats env None w = (Message ''Please upload a video file first.'', w) \<and>
   (let (stats, fs) = calculate_crop_radius_statistics env (name video_file) (files w);
        (first, second, third, most_common) = stats
    in compute_crop_radius_stats env (Some video_file) w
       = (MostCommon most_common,
          \<lparr>files = fs,
           trace = trace w @ [Print ''Computing Crop Radius...'',
                              CalculateCropRadiusStatistics (name video_file),
                              Print (''Done: Crop radius = '' @ str_value env most_common)]\<rparr>))"
  by (simp add: compute_crop_radius_stats_def call_calculate_crop_radius_statistics_def
        print_def Let_def split: prod.splits)

theorem compute_crop_radius_stats_reply_witness:
  "compute_crop_radius_stats (demo_env 0) None demo_world
     = (Message ''Please upload a video file first.'', demo_world) \<and>
   compute_crop_radius_stats (demo_env 0) (Some \<lparr>name = ''clip.mp4''\<rparr>) demo_world
     = (MostCommon 40,
        \<lparr>files = demo_files,
         trace = [Print ''Computing Crop Radius...'',
                  CalculateCropRadiusStatistics ''clip.mp4'',
                  Print ''Done: Crop radius = 40'']\<rparr>)"
proof -
  have s: "str_int 40 = ''40''" by code_simp
  from compute_crop_radius_stats_reply[of "demo_env 0" demo_world "\<lparr>name = ''clip.mp4''\<rparr>"]
  show ?thesis
    by (simp add: demo_env_def demo_world_def s)
qed

text \<open>
  C10. \<open>get_versioned_filename\<close> only probes for existence: the world it returns,
  files and trace, is the world it was called in.
\<close>

theorem get_versioned_filename_read_only:
  "snd (get_versioned_filename filepath w) = w"
  by (simp add: get_versioned_filename_def gvf_loop_world split: prod.splits)

end
